theory Spec2Isabelle
  imports Main "HOL-Library.Sublist" "HOL-Library.Multiset"
begin

section \<open>Health Navigator (app2.jsx): a shallow embedding\<close>

text \<open>
  The program is one React component. Its \<open>useState\<close> cells become the fields of the
  record \<open>app_state\<close>; every handler becomes a function that takes the state (and what the
  outside world answers: the clock, an HTTP exchange, the document store's verdict) and
  returns the new state together with the requests it issued and its return value.
\<close>

subsection \<open>JavaScript values\<close>

text \<open>
  The values that \<open>response.json()\<close> can produce, plus \<open>undefined\<close>, which property
  reads produce. A number is carried as an integer: the numbers this program reads
  (\<open>intVal\<close>, clock readings) are integers, on which doubles are exact below \<open>2^53\<close>.
  An object is the association list of its own properties. A string is the sequence
  of its UTF-8 bytes.
\<close>

datatype jsval =
    JUndefined
  | JNull
  | JBool bool
  | JNum int
  | JStr string
  | JArr "jsval list"
  | JObj "(string \<times> jsval) list"

text \<open>Truthiness, as \<open>if (v)\<close>, \<open>v && w\<close>, \<open>v || w\<close> and \<open>!v\<close> test it.\<close>

fun truthy :: "jsval \<Rightarrow> bool" where
  "truthy JUndefined = False"
| "truthy JNull = False"
| "truthy (JBool b) = b"
| "truthy (JNum n) = (n \<noteq> 0)"
| "truthy (JStr s) = (s \<noteq> [])"
| "truthy (JArr xs) = True"
| "truthy (JObj kvs) = True"

definition js_or :: "jsval \<Rightarrow> jsval \<Rightarrow> jsval" where
  "js_or v w = (if truthy v then v else w)"

text \<open>
  An exception is the value thrown; the program only ever reads its \<open>message\<close>.
\<close>

datatype js_error = JsError (error_message: string)

text \<open>
  What the JavaScript engine and the browser's locale decide, and the program merely
  calls: the wording of the TypeError for a property read on \<open>null\<close>, the wording of the
  TypeError for calling a missing method, \<open>String(v)\<close> inside a template literal,
  \<open>v.toLocaleString()\<close>, and the outcome of \<open>v > 0\<close> when \<open>v\<close> is a string, an array or
  an object (which goes through the engine's string-to-number conversion).
\<close>

record js_runtime =
  null_read_message :: "string \<Rightarrow> string"
  not_a_function_message :: "string \<Rightarrow> string"
  to_string :: "jsval \<Rightarrow> string"
  to_locale_string :: "jsval \<Rightarrow> string"
  coerced_gt_zero :: "jsval \<Rightarrow> bool"

text \<open>
  \<open>v.k\<close> for the property names this program reads (none of them is a built-in
  property of arrays, strings, numbers or booleans): a TypeError on \<open>null\<close> and
  \<open>undefined\<close>, the own property of an object, \<open>undefined\<close> otherwise.
\<close>

fun js_member :: "jsval \<Rightarrow> string \<Rightarrow> jsval" where
  "js_member (JObj kvs) k = (case map_of kvs k of Some v \<Rightarrow> v | None \<Rightarrow> JUndefined)"
| "js_member v k = JUndefined"

fun nullish :: "jsval \<Rightarrow> bool" where
  "nullish JUndefined = True"
| "nullish JNull = True"
| "nullish v = False"

definition js_get :: "js_runtime \<Rightarrow> jsval \<Rightarrow> string \<Rightarrow> js_error + jsval" where
  "js_get rt v k =
     (if nullish v then Inl (JsError (null_read_message rt k)) else Inr (js_member v k))"

text \<open>\<open>v?.k\<close>: \<open>undefined\<close> on \<open>null\<close> and \<open>undefined\<close>, never an exception.\<close>

definition opt_get :: "jsval \<Rightarrow> string \<Rightarrow> jsval" where
  "opt_get v k = (if nullish v then JUndefined else js_member v k)"

text \<open>
  \<open>v?.[0]\<close>: the first element of an array, the first character of a string, the
  property \<open>"0"\<close> of an object, \<open>undefined\<close> otherwise.
\<close>

fun opt_first :: "jsval \<Rightarrow> jsval" where
  "opt_first (JArr xs) = (case xs of [] \<Rightarrow> JUndefined | x # _ \<Rightarrow> x)"
| "opt_first (JStr s) = (case s of [] \<Rightarrow> JUndefined | c # _ \<Rightarrow> JStr [c])"
| "opt_first (JObj kvs) = (case map_of kvs ''0'' of Some v \<Rightarrow> v | None \<Rightarrow> JUndefined)"
| "opt_first v = JUndefined"

subsection \<open>Component state\<close>

datatype notice_type = error | success

record notice =
  ntype :: notice_type
  ntext :: string

datatype role = user | model

text \<open>
  A chat entry \<open>{role, parts: [{text}], sources}\<close>. The text of a model entry is
  whatever truthy value the response holds at \<open>parts[0].text\<close>; \<open>sources\<close> is absent
  (\<open>None\<close>) on user entries and on error entries.
\<close>

record chat_entry =
  entry_role :: role
  entry_text :: jsval
  entry_sources :: "(jsval \<times> jsval) list option"

record medication =
  med_id :: string
  med_name :: string
  med_dose :: string
  med_time :: string
  isTaken :: bool
  createdAt :: int

datatype tab = medications_tab | fit_tab | chat_tab

record app_state =
  userId :: "string option"
  isAuthReady :: bool
  medications :: "medication list"
  chatHistory :: "chat_entry list"
  chatInput :: string
  isChatLoading :: bool
  activeTab :: tab
  message :: "notice option"
  googleAccessToken :: "string option"
  stepCount :: "jsval option"
  isFitLoading :: bool

definition initial_state :: app_state where
  "initial_state =
     \<lparr>userId = None, isAuthReady = False, medications = [], chatHistory = [],
      chatInput = [], isChatLoading = False, activeTab = medications_tab, message = None,
      googleAccessToken = None, stepCount = None, isFitLoading = False\<rparr>"

subsection \<open>The OAuth redirect fragment\<close>

text \<open>
  \<open>new URLSearchParams(s)\<close> on a string: a leading \<open>?\<close> is dropped, the rest is split
  at every \<open>&\<close>, empty pieces are skipped, each piece is split at its first \<open>=\<close> (no
  \<open>=\<close>: the whole piece is the name and the value is empty), and in both halves \<open>+\<close>
  becomes a space and \<open>%XX\<close> is decoded. Strings are byte strings here, so the decoded
  bytes are kept as they are.
\<close>

fun split_on :: "char \<Rightarrow> string \<Rightarrow> string list" where
  "split_on c [] = [[]]"
| "split_on c (x # xs) =
     (if x = c then [] # split_on c xs
      else (case split_on c xs of [] \<Rightarrow> [[x]] | y # ys \<Rightarrow> (x # y) # ys))"

definition hex_digit :: "char \<Rightarrow> nat option" where
  "hex_digit c =
     (let n = (of_char c :: nat) in
      if 48 \<le> n \<and> n \<le> 57 then Some (n - 48)
      else if 65 \<le> n \<and> n \<le> 70 then Some (n - 55)
      else if 97 \<le> n \<and> n \<le> 102 then Some (n - 87)
      else None)"

fun percent_decode :: "string \<Rightarrow> string" where
  "percent_decode (p # a # b # rest) =
     (if p = CHR ''%'' then
        (case (hex_digit a, hex_digit b) of
           (Some h, Some l) \<Rightarrow> char_of (16 * h + l) # percent_decode rest
         | _ \<Rightarrow> p # percent_decode (a # b # rest))
      else p # percent_decode (a # b # rest))"
| "percent_decode s = s"

definition form_decode :: "string \<Rightarrow> string" where
  "form_decode s = percent_decode (map (\<lambda>c. if c = CHR ''+'' then CHR '' '' else c) s)"

definition parse_pair :: "string \<Rightarrow> string \<times> string" where
  "parse_pair q =
     (form_decode (takeWhile (\<lambda>c. c \<noteq> CHR ''='') q),
      form_decode (drop 1 (dropWhile (\<lambda>c. c \<noteq> CHR ''='') q)))"

definition URLSearchParams :: "string \<Rightarrow> (string \<times> string) list" where
  "URLSearchParams init =
     (let s = (case init of c # rest \<Rightarrow> if c = CHR ''?'' then rest else init | [] \<Rightarrow> init)
      in map parse_pair (filter (\<lambda>q. q \<noteq> []) (split_on CHR ''&'' s)))"

text \<open>\<open>s.replace(/a/g, b)\<close> for single characters.\<close>

definition replace_all :: "char \<Rightarrow> char \<Rightarrow> string \<Rightarrow> string" where
  "replace_all a b s = map (\<lambda>c. if c = a then b else c) s"

text \<open>
  The effect that runs once on page load (lines 126-144). \<open>hash\<close> is
  \<open>window.location.hash\<close>: empty, or \<open>#\<close> followed by the fragment. The result is the
  new state and the new hash (\<open>replaceState\<close> to the bare path name removes it).
\<close>

definition oauth_params :: "string \<Rightarrow> (string \<times> string) list" where
  "oauth_params hash =
     URLSearchParams (replace_all CHR ''='' CHR '':'' (replace_all CHR ''&'' CHR '','' (drop 1 hash)))"

definition oauth_accessToken :: "string \<Rightarrow> string option" where
  "oauth_accessToken hash =
     (case find (\<lambda>(key, v). prefix ''access_token'' key) (oauth_params hash) of
        Some tokenParam \<Rightarrow> Some (snd tokenParam) | None \<Rightarrow> None)"

definition oauth_state :: "string \<Rightarrow> string option" where
  "oauth_state hash =
     (case find (\<lambda>(key, v). prefix ''state'' key) (oauth_params hash) of
        Some stateParam \<Rightarrow> Some (snd stateParam) | None \<Rightarrow> None)"

definition truthy_str :: "string option \<Rightarrow> bool" where
  "truthy_str v = (case v of None \<Rightarrow> False | Some s \<Rightarrow> s \<noteq> [])"

definition oauth_effect :: "string \<Rightarrow> app_state \<Rightarrow> app_state \<times> string" where
  "oauth_effect hash st =
     (if hash \<noteq> [] then
        (if truthy_str (oauth_accessToken hash) \<and> oauth_state hash = Some ''google-fit-connect''
         then
           (st\<lparr>googleAccessToken := oauth_accessToken hash,
               message := Some \<lparr>ntype = success,
                 ntext = ''Google Fit connected! Token received. Now fetch your activity.''\<rparr>\<rparr>,
            [])
         else (st, hash))
      else (st, hash))"

text \<open>
  The reading of a redirect fragment that the specification has in mind: the fragment is
  a list of \<open>name=value\<close> pairs separated by \<open>&\<close>, and the value of a parameter is the
  value of the first pair with that name.
\<close>

definition spec_fragment_param :: "string \<Rightarrow> string \<Rightarrow> string option" where
  "spec_fragment_param k hash = map_of (URLSearchParams (drop 1 hash)) k"


subsection \<open>HTTP exchanges\<close>

text \<open>
  What \<open>await fetch(...)\<close> followed by \<open>await response.json()\<close> can bring: the fetch
  rejects (a network error), or a response arrives with its status, its status text and
  what \<open>json()\<close> would produce, a rejection (the body is not JSON) or the parsed value.
\<close>

datatype body_result = BodyRejected js_error | BodyJson jsval

datatype fetch_outcome = FetchRejected js_error | Response nat string body_result

definition response_ok :: "nat \<Rightarrow> bool" where
  "response_ok status = (200 \<le> status \<and> status \<le> 299)"

subsection \<open>fetchSteps (lines 148-212)\<close>

definition oneDayMs :: int where
  "oneDayMs = 24 * 60 * 60 * 1000"

text \<open>JavaScript's \<open>%\<close> on integers: the remainder has the sign of the dividend.\<close>

definition js_rem :: "int \<Rightarrow> int \<Rightarrow> int" where
  "js_rem a b = sgn a * (\<bar>a\<bar> mod \<bar>b\<bar>)"

definition endTimeMs :: "int \<Rightarrow> int" where
  "endTimeMs now = now - js_rem now oneDayMs - 1"

definition startTimeMs :: "int \<Rightarrow> int" where
  "startTimeMs now = endTimeMs now - oneDayMs"

record fit_request_body =
  aggregateBy_dataTypeName :: string
  aggregateBy_dataSourceId :: string
  bucketByTime_durationMillis :: int
  startTimeMillis :: int
  endTimeMillis :: int

record fit_request =
  fit_url :: string
  fit_authorization :: string
  fit_body :: fit_request_body

definition requestBody :: "int \<Rightarrow> fit_request_body" where
  "requestBody now =
     \<lparr>aggregateBy_dataTypeName = ''com.google.step_count.delta'',
      aggregateBy_dataSourceId =
        ''derived:com.google.step_count.delta:com.google.android.gms:estimated_steps'',
      bucketByTime_durationMillis = oneDayMs,
      startTimeMillis = startTimeMs now,
      endTimeMillis = endTimeMs now\<rparr>"

definition fit_fetch :: "string \<Rightarrow> int \<Rightarrow> fit_request" where
  "fit_fetch token now =
     \<lparr>fit_url = ''https://www.googleapis.com/fitness/v1/users/me/dataset:aggregate'',
      fit_authorization = ''Bearer '' @ token,
      fit_body = requestBody now\<rparr>"

text \<open>
  Lines 196-198: \<open>data.bucket?.[0]\<close>, then
  \<open>stepBucket?.dataset?.[0]?.point?.[0]?.value?.[0]?.intVal || 0\<close>. The first read is
  a plain one and throws when \<open>data\<close> is \<open>null\<close>.
\<close>

definition extract_steps :: "js_runtime \<Rightarrow> jsval \<Rightarrow> js_error + jsval" where
  "extract_steps rt data =
     (case js_get rt data ''bucket'' of
        Inl e \<Rightarrow> Inl e
      | Inr bucket \<Rightarrow>
          (let stepBucket = opt_first bucket in
           Inr (js_or
             (opt_get (opt_first (opt_get (opt_first (opt_get (opt_first
                (opt_get stepBucket ''dataset'')) ''point'')) ''value'')) ''intVal'')
             (JNum 0))))"

record steps_result =
  sr_state :: app_state
  sr_value :: jsval
  sr_request :: "fit_request option"

text \<open>The \<open>catch\<close> block followed by \<open>finally\<close>.\<close>

definition fetchSteps_catch :: "js_error \<Rightarrow> fit_request \<Rightarrow> app_state \<Rightarrow> steps_result" where
  "fetchSteps_catch e req st =
     \<lparr>sr_state = st\<lparr>message := Some \<lparr>ntype = error,
                       ntext = ''Failed to fetch activity: '' @ error_message e\<rparr>,
                     stepCount := Some (JNum 0),
                     isFitLoading := False\<rparr>,
      sr_value = JNum 0,
      sr_request = Some req\<rparr>"

definition fetchSteps :: "js_runtime \<Rightarrow> int \<Rightarrow> fetch_outcome \<Rightarrow> app_state \<Rightarrow> steps_result" where
  "fetchSteps rt now outcome st =
     (case googleAccessToken st of
        None \<Rightarrow>
          \<lparr>sr_state = st\<lparr>message := Some \<lparr>ntype = error,
             ntext = ''Error: Google Fit Access Token is missing. Please sign in again.''\<rparr>\<rparr>,
           sr_value = JNum 0, sr_request = None\<rparr>
      | Some token \<Rightarrow>
          if token = [] then
            \<lparr>sr_state = st\<lparr>message := Some \<lparr>ntype = error,
               ntext = ''Error: Google Fit Access Token is missing. Please sign in again.''\<rparr>\<rparr>,
             sr_value = JNum 0, sr_request = None\<rparr>
          else
            (let st1 = st\<lparr>isFitLoading := True\<rparr>; req = fit_fetch token now in
             case outcome of
               FetchRejected e \<Rightarrow> fetchSteps_catch e req st1
             | Response status statusText body \<Rightarrow>
                 if \<not> response_ok status then
                   (if status = 401 then
                      \<lparr>sr_state = st1\<lparr>message := Some \<lparr>ntype = error,
                           ntext = ''Google Fit token expired. Please reconnect to Google Fit.''\<rparr>,
                         googleAccessToken := None,
                         isFitLoading := False\<rparr>,
                       sr_value = JNum 0, sr_request = Some req\<rparr>
                    else fetchSteps_catch
                           (JsError (''Google Fit API error: '' @ statusText)) req st1)
                 else
                   (case body of
                      BodyRejected e \<Rightarrow> fetchSteps_catch e req st1
                    | BodyJson data \<Rightarrow>
                        (case extract_steps rt data of
                           Inl e \<Rightarrow> fetchSteps_catch e req st1
                         | Inr steps \<Rightarrow>
                             \<lparr>sr_state = st1\<lparr>stepCount := Some steps,
                                 message := Some \<lparr>ntype = success,
                                   ntext = ''Fetched activity successfully! Yesterday's steps: ''
                                           @ to_string rt steps @ ''.''\<rparr>,
                                 isFitLoading := False\<rparr>,
                              sr_value = steps, sr_request = Some req\<rparr>))))"

text \<open>
  The path \<open>bucket[0].dataset[0].point[0].value[0].intVal\<close> as the specification
  names it, read link by link: a name is present on an object that has it, \<open>[0]\<close> is
  present on a non-empty array or string and on an object with the property \<open>0\<close>.
  \<open>None\<close> says that some link is absent.
\<close>

datatype path_step = Key string | First

fun json_step :: "jsval \<Rightarrow> path_step \<Rightarrow> jsval option" where
  "json_step (JObj kvs) (Key k) = map_of kvs k"
| "json_step (JObj kvs) First = map_of kvs ''0''"
| "json_step (JArr (x # xs)) First = Some x"
| "json_step (JStr (c # cs)) First = Some (JStr [c])"
| "json_step v p = None"

fun json_path :: "jsval \<Rightarrow> path_step list \<Rightarrow> jsval option" where
  "json_path v [] = Some v"
| "json_path v (p # ps) = (case json_step v p of None \<Rightarrow> None | Some w \<Rightarrow> json_path w ps)"

definition intVal_path :: "path_step list" where
  "intVal_path =
     [Key ''bucket'', First, Key ''dataset'', First, Key ''point'', First,
      Key ''value'', First, Key ''intVal'']"

text \<open>
  The optional chain \<open>v?.p1?.p2 ...\<close> along a path, as the source writes it out for
  \<open>intVal_path\<close>.
\<close>

fun chain :: "jsval \<Rightarrow> path_step list \<Rightarrow> jsval" where
  "chain v [] = v"
| "chain v (Key k # ps) = chain (opt_get v k) ps"
| "chain v (First # ps) = chain (opt_first v) ps"

subsection \<open>handleGeminiQuery (lines 216-280)\<close>

text \<open>
  \<open>chatInput.trim()\<close> removes white space and line terminators at both ends. A
  string is the sequence of its UTF-8 bytes, so a white space character is one byte
  (tab, line feed, vertical tab, form feed, carriage return, space), two bytes (U+00A0)
  or three bytes (U+1680, U+2000 to U+200A, U+2028, U+2029, U+202F, U+205F, U+3000,
  U+FEFF).
\<close>

definition white_space1 :: "char \<Rightarrow> bool" where
  "white_space1 a = (let x = (of_char a :: nat) in (9 \<le> x \<and> x \<le> 13) \<or> x = 32)"

definition white_space2 :: "char \<Rightarrow> char \<Rightarrow> bool" where
  "white_space2 a b = ((of_char a :: nat) = 194 \<and> (of_char b :: nat) = 160)"

definition white_space3 :: "char \<Rightarrow> char \<Rightarrow> char \<Rightarrow> bool" where
  "white_space3 a b c =
     (let x = (of_char a :: nat); y = (of_char b :: nat); z = (of_char c :: nat) in
      (x = 225 \<and> y = 154 \<and> z = 128) \<or>
      (x = 226 \<and> y = 128 \<and> ((128 \<le> z \<and> z \<le> 138) \<or> z = 168 \<or> z = 169 \<or> z = 175)) \<or>
      (x = 226 \<and> y = 129 \<and> z = 159) \<or>
      (x = 227 \<and> y = 128 \<and> z = 128) \<or>
      (x = 239 \<and> y = 187 \<and> z = 191))"

text \<open>
  Dropping the white space at the head of a byte string; with \<open>backwards\<close> the bytes
  are those of a reversed string, so a character's bytes come last byte first.
\<close>

fun strip_white_space :: "bool \<Rightarrow> string \<Rightarrow> string" where
  "strip_white_space backwards (a # b # c # rest) =
     (if white_space1 a then strip_white_space backwards (b # c # rest)
      else if (if backwards then white_space2 b a else white_space2 a b)
        then strip_white_space backwards (c # rest)
      else if (if backwards then white_space3 c b a else white_space3 a b c)
        then strip_white_space backwards rest
      else a # b # c # rest)"
| "strip_white_space backwards [a, b] =
     (if white_space1 a then strip_white_space backwards [b]
      else if (if backwards then white_space2 b a else white_space2 a b) then []
      else [a, b])"
| "strip_white_space backwards [a] = (if white_space1 a then [] else [a])"
| "strip_white_space backwards [] = []"

definition trim :: "string \<Rightarrow> string" where
  "trim s = rev (strip_white_space True (rev (strip_white_space False s)))"

record gemini_payload =
  contents :: "chat_entry list"
  tools_google_search :: bool
  systemInstruction :: string

definition coach_instruction :: string where
  "coach_instruction = ''You are an encouraging and helpful virtual health coach. Analyze the user's step count and provide concise, motivating feedback and a simple, actionable suggestion in 2-3 sentences. Focus on positive reinforcement.''"

definition navigator_instruction :: string where
  "navigator_instruction = ''You are a concise, knowledgeable health and wellness navigator. Provide a direct, factual answer to the user's question. Limit your response to a maximum of 4-5 sentences. Use Google Search grounding for medical/factual queries.''"

text \<open>
  The part of \<open>handleGeminiQuery\<close> that runs before the request is sent (lines 217-249).
  \<open>customPrompt\<close> is \<open>None\<close> for \<open>null\<close>; an empty custom prompt is falsy as well. The
  result is the new state and the payload of the request, \<open>None\<close> when the handler
  returns without sending one.
\<close>

definition handleGeminiQuery_send ::
  "string option \<Rightarrow> bool \<Rightarrow> app_state \<Rightarrow> app_state \<times> gemini_payload option" where
  "handleGeminiQuery_send customPrompt isFitQuery st =
     (if trim (chatInput st) = [] \<and> \<not> truthy_str customPrompt then (st, None)
      else
        (let userPrompt = (case customPrompt of
                             None \<Rightarrow> chatInput st
                           | Some p \<Rightarrow> if p \<noteq> [] then p else chatInput st);
             turn = \<lparr>entry_role = user, entry_text = JStr userPrompt, entry_sources = None\<rparr>;
             newHistory = (if \<not> truthy_str customPrompt then chatHistory st @ [turn]
                           else [turn]);
             systemPrompt = (if isFitQuery then coach_instruction else navigator_instruction)
         in (st\<lparr>chatHistory := newHistory, chatInput := [], isChatLoading := True\<rparr>,
             Some \<lparr>contents = newHistory,
                   tools_google_search = (\<not> isFitQuery),
                   systemInstruction = systemPrompt\<rparr>)))"

text \<open>
  Lines 259-261: \<open>groundingAttributions.map(...)\<close> reads \<open>attribution.web\<close> plainly, so
  a \<open>null\<close> attribution throws; \<open>.filter\<close> keeps the pairs with both parts truthy.
\<close>

fun map_attributions :: "js_runtime \<Rightarrow> jsval list \<Rightarrow> js_error + (jsval \<times> jsval) list" where
  "map_attributions rt [] = Inr []"
| "map_attributions rt (attribution # rest) =
     (case js_get rt attribution ''web'' of
        Inl e \<Rightarrow> Inl e
      | Inr web \<Rightarrow>
          (case map_attributions rt rest of
             Inl e \<Rightarrow> Inl e
           | Inr srcs \<Rightarrow> Inr ((opt_get web ''uri'', opt_get web ''title'') # srcs)))"

definition grounding_sources :: "js_runtime \<Rightarrow> jsval \<Rightarrow> js_error + (jsval \<times> jsval) list" where
  "grounding_sources rt groundingMetadata =
     (if truthy groundingMetadata \<and> truthy (js_member groundingMetadata ''groundingAttributions'')
      then
        (case js_member groundingMetadata ''groundingAttributions'' of
           JArr attributions \<Rightarrow>
             (case map_attributions rt attributions of
                Inl e \<Rightarrow> Inl e
              | Inr srcs \<Rightarrow> Inr (filter (\<lambda>(uri, title). truthy uri \<and> truthy title) srcs))
         | _ \<Rightarrow> Inl (JsError (not_a_function_message rt ''map'')))
      else Inr [])"

definition model_error_entry :: chat_entry where
  "model_error_entry =
     \<lparr>entry_role = model,
      entry_text = JStr ''Model response error: Could not generate content.'',
      entry_sources = None\<rparr>"

definition connect_error_entry :: "js_error \<Rightarrow> chat_entry" where
  "connect_error_entry e =
     \<lparr>entry_role = model,
      entry_text = JStr (''Failed to connect to AI: '' @ error_message e @ ''.''),
      entry_sources = None\<rparr>"

text \<open>
  Line 255, \<open>candidate.content.parts[0].text\<close>: plain reads, each of which throws on
  \<open>null\<close> and \<open>undefined\<close>.
\<close>

definition js_first :: "js_runtime \<Rightarrow> jsval \<Rightarrow> js_error + jsval" where
  "js_first rt v =
     (if nullish v then Inl (JsError (null_read_message rt ''0'')) else Inr (opt_first v))"

definition plain_text :: "js_runtime \<Rightarrow> jsval \<Rightarrow> js_error + jsval" where
  "plain_text rt candidate =
     (case js_get rt candidate ''content'' of
        Inl e \<Rightarrow> Inl e
      | Inr content \<Rightarrow>
          (case js_get rt content ''parts'' of
             Inl e \<Rightarrow> Inl e
           | Inr parts \<Rightarrow>
               (case js_first rt parts of
                  Inl e \<Rightarrow> Inl e
                | Inr part \<Rightarrow> js_get rt part ''text'')))"

text \<open>
  Lines 252-272, inside the \<open>try\<close>: the entry that the \<open>setChatHistory\<close> of the
  branch taken appends, or the exception thrown before any entry was appended.
\<close>

definition reply_entry :: "js_runtime \<Rightarrow> jsval \<Rightarrow> js_error + chat_entry" where
  "reply_entry rt result =
     (case js_get rt result ''candidates'' of
        Inl e \<Rightarrow> Inl e
      | Inr candidates \<Rightarrow>
          (let candidate = opt_first candidates in
           if truthy candidate \<and>
              truthy (opt_get (opt_first (opt_get (js_member candidate ''content'') ''parts''))
                        ''text'')
           then
             (case plain_text rt candidate of
                Inl e \<Rightarrow> Inl e
              | Inr text \<Rightarrow>
                  (case grounding_sources rt (js_member candidate ''groundingMetadata'') of
                     Inl e \<Rightarrow> Inl e
                   | Inr sources \<Rightarrow>
                       Inr \<lparr>entry_role = model, entry_text = text,
                            entry_sources = Some sources\<rparr>))
           else Inr model_error_entry))"

text \<open>
  The part of \<open>handleGeminiQuery\<close> that runs when the request settles (lines 251-279),
  on the state of that moment: every \<open>setChatHistory\<close> there is a functional update
  \<open>prev => [...prev, entry]\<close>. The response's status is not looked at.
\<close>

definition handleGeminiQuery_settle ::
  "js_runtime \<Rightarrow> fetch_outcome \<Rightarrow> app_state \<Rightarrow> app_state" where
  "handleGeminiQuery_settle rt outcome st =
     (case outcome of
        FetchRejected e \<Rightarrow>
          st\<lparr>chatHistory := chatHistory st @ [connect_error_entry e], isChatLoading := False\<rparr>
      | Response status statusText body \<Rightarrow>
          (case body of
             BodyRejected e \<Rightarrow>
               st\<lparr>chatHistory := chatHistory st @ [connect_error_entry e],
                  isChatLoading := False\<rparr>
           | BodyJson result \<Rightarrow>
               (case reply_entry rt result of
                  Inl e \<Rightarrow>
                    st\<lparr>chatHistory := chatHistory st @ [connect_error_entry e],
                       isChatLoading := False\<rparr>
                | Inr entry \<Rightarrow>
                    st\<lparr>chatHistory := chatHistory st @ [entry], isChatLoading := False\<rparr>)))"

definition handleGeminiQuery ::
  "js_runtime \<Rightarrow> fetch_outcome \<Rightarrow> string option \<Rightarrow> bool \<Rightarrow> app_state
     \<Rightarrow> app_state \<times> gemini_payload option" where
  "handleGeminiQuery rt outcome customPrompt isFitQuery st =
     (case handleGeminiQuery_send customPrompt isFitQuery st of
        (st1, None) \<Rightarrow> (st1, None)
      | (st1, Some payload) \<Rightarrow> (handleGeminiQuery_settle rt outcome st1, Some payload))"

text \<open>The entry that the branch taken on settlement appends, for stating properties.\<close>

definition settled_entry :: "js_runtime \<Rightarrow> fetch_outcome \<Rightarrow> chat_entry" where
  "settled_entry rt outcome =
     (case outcome of
        FetchRejected e \<Rightarrow> connect_error_entry e
      | Response status statusText body \<Rightarrow>
          (case body of
             BodyRejected e \<Rightarrow> connect_error_entry e
           | BodyJson result \<Rightarrow>
               (case reply_entry rt result of
                  Inl e \<Rightarrow> connect_error_entry e
                | Inr entry \<Rightarrow> entry)))"

definition text_path :: "path_step list" where
  "text_path = [Key ''candidates'', First, Key ''content'', Key ''parts'', First, Key ''text'']"

subsection \<open>handleAssessSteps (lines 283-291)\<close>

text \<open>
  \<open>steps > 0 || steps === 0\<close>. On a number both are what they say; \<open>true > 0\<close> holds
  (\<open>true\<close> converts to 1), \<open>false\<close>, \<open>null\<close> and \<open>undefined\<close> are not above 0, and only
  the number 0 is strictly equal to 0.
\<close>

fun js_gt_zero :: "js_runtime \<Rightarrow> jsval \<Rightarrow> bool" where
  "js_gt_zero rt (JNum n) = (n > 0)"
| "js_gt_zero rt (JBool b) = b"
| "js_gt_zero rt JNull = False"
| "js_gt_zero rt JUndefined = False"
| "js_gt_zero rt v = coerced_gt_zero rt v"

definition steps_guard :: "js_runtime \<Rightarrow> jsval \<Rightarrow> bool" where
  "steps_guard rt steps = (js_gt_zero rt steps \<or> steps = JNum 0)"

definition assess_prompt :: "js_runtime \<Rightarrow> jsval \<Rightarrow> string" where
  "assess_prompt rt steps =
     ''Yesterday, the user took exactly '' @ to_locale_string rt steps @
     '' steps. Please provide an assessment and feedback based on this activity level.''"

record assess_result =
  ar_state :: app_state
  ar_fit_request :: "fit_request option"
  ar_payload :: "gemini_payload option"

definition handleAssessSteps ::
  "js_runtime \<Rightarrow> int \<Rightarrow> fetch_outcome \<Rightarrow> fetch_outcome \<Rightarrow> app_state \<Rightarrow> assess_result" where
  "handleAssessSteps rt now fit_outcome gemini_outcome st =
     (let r = fetchSteps rt now fit_outcome st; steps = sr_value r in
      if steps_guard rt steps then
        (let prompt = assess_prompt rt steps;
             st1 = (sr_state r)\<lparr>activeTab := chat_tab\<rparr>;
             q = handleGeminiQuery rt gemini_outcome (Some prompt) True st1
         in \<lparr>ar_state = fst q, ar_fit_request = sr_request r, ar_payload = snd q\<rparr>)
      else \<lparr>ar_state = sr_state r, ar_fit_request = sr_request r, ar_payload = None\<rparr>)"

subsection \<open>Medication handlers (lines 81-85, 296-377)\<close>

text \<open>
  The requests the handlers send to the document store. A collection reference is its
  path; the created document carries \<open>serverTimestamp()\<close>, a placeholder that the
  server replaces by its own clock.
\<close>

datatype timestamp_value = serverTimestamp

record new_medication =
  name :: string
  dose :: string
  time :: string
  new_isTaken :: bool
  new_createdAt :: timestamp_value

datatype store_request =
    addDoc "string list" new_medication
  | updateDoc_isTaken "string list" string bool
  | deleteDoc "string list" string

datatype write_outcome = WriteAccepted | WriteRejected js_error

definition userMedicationsCollectionRef :: "string \<Rightarrow> app_state \<Rightarrow> string list option" where
  "userMedicationsCollectionRef appId st =
     (case userId st of
        None \<Rightarrow> None
      | Some uid \<Rightarrow>
          if uid = [] then None
          else Some [''artifacts'', appId, ''users'', uid, ''medications''])"

record form_state =
  form_name :: string
  form_dose :: string
  form_time :: string

record submit_result =
  sub_form :: form_state
  sub_state :: app_state
  sub_requests :: "store_request list"

text \<open>
  Lines 301-323. The test of line 303,
  \<open>!name || !dose || !time || !userMedicationsCollectionRef\<close>, leads to one branch
  whichever disjunct holds; the reference is looked at first here only to bind it. The
  write outcome says whether the awaited \<open>addDoc\<close> resolves or rejects.
\<close>

definition handleSubmit ::
  "string \<Rightarrow> write_outcome \<Rightarrow> form_state \<Rightarrow> app_state \<Rightarrow> submit_result" where
  "handleSubmit appId outcome form st =
     (case userMedicationsCollectionRef appId st of
        None \<Rightarrow>
          \<lparr>sub_form = form,
           sub_state = st\<lparr>message := Some \<lparr>ntype = error, ntext = ''All fields are required.''\<rparr>\<rparr>,
           sub_requests = []\<rparr>
      | Some ref \<Rightarrow>
          if form_name form = [] \<or> form_dose form = [] \<or> form_time form = [] then
            \<lparr>sub_form = form,
             sub_state = st\<lparr>message := Some \<lparr>ntype = error,
                                              ntext = ''All fields are required.''\<rparr>\<rparr>,
             sub_requests = []\<rparr>
          else
            (let request = addDoc ref
                   \<lparr>name = form_name form, dose = form_dose form, time = form_time form,
                    new_isTaken = False, new_createdAt = serverTimestamp\<rparr>
             in case outcome of
                  WriteAccepted \<Rightarrow>
                    \<lparr>sub_form = \<lparr>form_name = [], form_dose = [], form_time = []\<rparr>,
                     sub_state = st,
                     sub_requests = [request]\<rparr>
                | WriteRejected e \<Rightarrow>
                    \<lparr>sub_form = form,
                     sub_state = st\<lparr>message := Some \<lparr>ntype = error,
                       ntext = ''Failed to add medication. See console for details.''\<rparr>\<rparr>,
                     sub_requests = [request]\<rparr>))"

definition handleToggleTaken ::
  "string \<Rightarrow> write_outcome \<Rightarrow> string \<Rightarrow> bool \<Rightarrow> app_state
     \<Rightarrow> app_state \<times> store_request list" where
  "handleToggleTaken appId outcome ident taken st =
     (case userMedicationsCollectionRef appId st of
        None \<Rightarrow> (st, [])
      | Some ref \<Rightarrow>
          (case outcome of
             WriteAccepted \<Rightarrow> (st, [updateDoc_isTaken ref ident (\<not> taken)])
           | WriteRejected e \<Rightarrow>
               (st\<lparr>message := Some \<lparr>ntype = error,
                      ntext = ''Failed to update status. See console.''\<rparr>\<rparr>,
                [updateDoc_isTaken ref ident (\<not> taken)])))"

subsection \<open>The document store, as the program sees it\<close>

text \<open>
  The store is a remote service. What the handlers rely on is what the
  specification says of it: a request that the store accepts is applied to the user's
  collection (a created document gets an identifier and the server's time for
  \<open>createdAt\<close>; an update changes the named field of the named document), a request
  that it rejects changes nothing, and after every change the subscription of lines
  87-103 delivers the whole collection ordered by \<open>createdAt\<close>, newest first, which
  \<open>setMedications\<close> stores.
\<close>

fun store_apply :: "string \<Rightarrow> int \<Rightarrow> store_request \<Rightarrow> medication list \<Rightarrow> medication list" where
  "store_apply new_id server_time (addDoc ref d) docs =
     docs @ [\<lparr>med_id = new_id, med_name = name d, med_dose = dose d, med_time = time d,
              isTaken = new_isTaken d, createdAt = server_time\<rparr>]"
| "store_apply new_id server_time (updateDoc_isTaken ref ident b) docs =
     map (\<lambda>m. if med_id m = ident then m\<lparr>isTaken := b\<rparr> else m) docs"
| "store_apply new_id server_time (deleteDoc ref ident) docs =
     filter (\<lambda>m. med_id m \<noteq> ident) docs"

definition snapshot :: "medication list \<Rightarrow> medication list" where
  "snapshot docs = sort_key (\<lambda>m. - createdAt m) docs"

definition onSnapshot :: "medication list \<Rightarrow> app_state \<Rightarrow> app_state" where
  "onSnapshot docs st = st\<lparr>medications := snapshot docs\<rparr>"

record world =
  app :: app_state
  store :: "medication list"

text \<open>
  One round: the handler runs, the store applies the requests it accepted, and the
  subscription delivers the new collection.
\<close>

definition store_round ::
  "string \<Rightarrow> int \<Rightarrow> write_outcome \<Rightarrow> store_request list \<Rightarrow> app_state \<Rightarrow> medication list \<Rightarrow> world" where
  "store_round new_id server_time outcome requests st docs =
     (case outcome of
        WriteRejected e \<Rightarrow> \<lparr>app = st, store = docs\<rparr>
      | WriteAccepted \<Rightarrow>
          (let docs' = fold (store_apply new_id server_time) requests docs
           in \<lparr>app = (if requests = [] then st else onSnapshot docs' st), store = docs'\<rparr>))"

definition submit_medication ::
  "string \<Rightarrow> string \<Rightarrow> int \<Rightarrow> write_outcome \<Rightarrow> form_state \<Rightarrow> world \<Rightarrow> world" where
  "submit_medication appId new_id server_time outcome form w =
     (let r = handleSubmit appId outcome form (app w)
      in store_round new_id server_time outcome (sub_requests r) (sub_state r) (store w))"

text \<open>
  Line 435: the button of a listed record calls
  \<open>handleToggleTaken(med.id, med.isTaken)\<close>.
\<close>

definition click_toggle :: "string \<Rightarrow> write_outcome \<Rightarrow> medication \<Rightarrow> world \<Rightarrow> world" where
  "click_toggle appId outcome med w =
     (let r = handleToggleTaken appId outcome (med_id med) (isTaken med) (app w)
      in store_round [] 0 outcome (snd r) (fst r) (store w))"

subsection \<open>A runtime and inputs for the examples\<close>

text \<open>
  An engine to run the examples on: V8's wording of the two TypeErrors, integers printed
  in decimal by \<open>String\<close> and by \<open>toLocaleString\<close> (a locale that does not group
  digits), strings printed as they are, arrays as their elements joined by commas. The
  examples compare numbers only, so the last field is never consulted in them.
\<close>

fun decimal :: "nat \<Rightarrow> string" where
  "decimal n = (if n < 10 then [char_of (48 + n)] else decimal (n div 10) @ [char_of (48 + n mod 10)])"

declare decimal.simps [simp del]

fun join_commas :: "string list \<Rightarrow> string" where
  "join_commas [] = []"
| "join_commas [s] = s"
| "join_commas (s # t # rest) = s @ '','' @ join_commas (t # rest)"

fun example_to_string :: "jsval \<Rightarrow> string" where
  "example_to_string (JNum n) = (if n < 0 then CHR ''-'' # decimal (nat (- n)) else decimal (nat n))"
| "example_to_string (JStr s) = s"
| "example_to_string (JBool b) = (if b then ''true'' else ''false'')"
| "example_to_string JNull = ''null''"
| "example_to_string JUndefined = ''undefined''"
| "example_to_string (JObj kvs) = ''[object Object]''"
| "example_to_string (JArr xs) =
     join_commas (map (\<lambda>x. if nullish x then [] else example_to_string x) xs)"

definition example_runtime :: js_runtime where
  "example_runtime =
     \<lparr>null_read_message =
        (\<lambda>k. ''Cannot read properties of null (reading '' @ [CHR 0x27] @ k @ [CHR 0x27] @ '')''),
      not_a_function_message = (\<lambda>k. k @ '' is not a function''),
      to_string = example_to_string,
      to_locale_string = example_to_string,
      coerced_gt_zero = (\<lambda>v. False)\<rparr>"

definition connected_state :: app_state where
  "connected_state = initial_state\<lparr>googleAccessToken := Some ''ya29.token''\<rparr>"

definition steps_response :: "int \<Rightarrow> jsval" where
  "steps_response n =
     JObj [(''bucket'', JArr [JObj [(''dataset'', JArr [JObj [(''point'',
       JArr [JObj [(''value'', JArr [JObj [(''intVal'', JNum n)]])]])]])]])]"

definition grounding_path :: "path_step list" where
  "grounding_path = [Key ''candidates'', First, Key ''groundingMetadata'']"

text \<open>
  The citations of a response as the specification names them,
  \<open>candidates[0].groundingMetadata.groundingAttributions[*].web.{uri, title}\<close>, read
  link by link: one pair for every attribution that has both a truthy \<open>uri\<close> and a
  truthy \<open>title\<close>, in the order of the list; no citation when the list is absent or
  falsy. Two shapes cannot be read: a truthy value that is not a list, and a list that
  holds \<open>null\<close>.
\<close>

datatype citation_reading = Citations "(jsval \<times> jsval) list" | NotAList | NullAttribution

definition attributions_path :: "path_step list" where
  "attributions_path =
     [Key ''candidates'', First, Key ''groundingMetadata'', Key ''groundingAttributions'']"

definition spec_citation :: "jsval \<Rightarrow> (jsval \<times> jsval) list" where
  "spec_citation attribution =
     (case (json_path attribution [Key ''web'', Key ''uri''],
            json_path attribution [Key ''web'', Key ''title'']) of
        (Some uri, Some title) \<Rightarrow> if truthy uri \<and> truthy title then [(uri, title)] else []
      | _ \<Rightarrow> [])"

definition spec_citations :: "jsval \<Rightarrow> citation_reading" where
  "spec_citations result =
     (case json_path result attributions_path of
        None \<Rightarrow> Citations []
      | Some (JArr attributions) \<Rightarrow>
          if list_ex nullish attributions then NullAttribution
          else Citations (concat (map spec_citation attributions))
      | Some v \<Rightarrow> if truthy v then NotAList else Citations [])"

definition cited_response :: jsval where
  "cited_response =
     JObj [(''candidates'', JArr [JObj
       [(''content'', JObj [(''parts'', JArr [JObj [(''text'', JStr ''Cycling helps as well.'')]])]),
        (''groundingMetadata'', JObj [(''groundingAttributions'', JArr
          [JObj [(''web'', JObj [(''uri'', JStr ''https://example.org/cycling''),
                                 (''title'', JStr ''Cycling and the heart'')])],
           JObj [(''web'', JObj [(''uri'', JStr ''https://example.org/untitled'')])]])])]])]"

definition null_citation_response :: jsval where
  "null_citation_response =
     JObj [(''candidates'', JArr [JObj
       [(''content'', JObj [(''parts'', JArr [JObj [(''text'', JStr ''Cycling helps as well.'')]])]),
        (''groundingMetadata'', JObj [(''groundingAttributions'', JArr [JNull])])]])]"

definition question_turn :: chat_entry where
  "question_turn =
     \<lparr>entry_role = user, entry_text = JStr ''Is walking good for the heart?'',
      entry_sources = None\<rparr>"

definition answer_turn :: chat_entry where
  "answer_turn =
     \<lparr>entry_role = model, entry_text = JStr ''Yes, regular walking helps.'',
      entry_sources = Some []\<rparr>"

definition chatting_state :: app_state where
  "chatting_state =
     connected_state\<lparr>chatHistory := [question_turn, answer_turn],
                     chatInput := ''And cycling?''\<rparr>"

text \<open>What the claims about the assessment workflow and the medication list speak of.\<close>

definition fetch_failed :: "app_state \<Rightarrow> fetch_outcome \<Rightarrow> bool" where
  "fetch_failed st outcome =
     (\<not> truthy_str (googleAccessToken st) \<or>
      (case outcome of
         FetchRejected e \<Rightarrow> True
       | Response status statusText body \<Rightarrow>
           \<not> response_ok status \<or>
           (case body of BodyRejected e \<Rightarrow> True | BodyJson data \<Rightarrow> False)))"

definition coaching_payload :: "js_runtime \<Rightarrow> jsval \<Rightarrow> gemini_payload" where
  "coaching_payload rt steps =
     \<lparr>contents =
        [\<lparr>entry_role = user,
          entry_text = JStr (''Yesterday, the user took exactly '' @ to_locale_string rt steps @
            '' steps. Please provide an assessment and feedback based on this activity level.''),
          entry_sources = None\<rparr>],
      tools_google_search = False,
      systemInstruction = ''You are an encouraging and helpful virtual health coach. Analyze the user's step count and provide concise, motivating feedback and a simple, actionable suggestion in 2-3 sentences. Focus on positive reinforcement.''\<rparr>"

definition form_valid :: "string \<Rightarrow> form_state \<Rightarrow> app_state \<Rightarrow> bool" where
  "form_valid appId form st =
     (form_name form \<noteq> [] \<and> form_dose form \<noteq> [] \<and> form_time form \<noteq> [] \<and>
      userMedicationsCollectionRef appId st \<noteq> None)"

definition created_medication :: "string \<Rightarrow> int \<Rightarrow> form_state \<Rightarrow> medication" where
  "created_medication new_id server_time form =
     \<lparr>med_id = new_id, med_name = form_name form, med_dose = form_dose form,
      med_time = form_time form, isTaken = False, createdAt = server_time\<rparr>"

text \<open>
  The collection after the taken flag of the record listed as \<open>m\<close> has been written as
  the negation of what the list shows: no other field and no other record differs.
\<close>

definition toggled :: "medication \<Rightarrow> medication list \<Rightarrow> medication list" where
  "toggled m docs =
     map (\<lambda>x. if med_id x = med_id m then x\<lparr>isTaken := \<not> isTaken m\<rparr> else x) docs"

definition signed_in_state :: app_state where
  "signed_in_state = initial_state\<lparr>userId := Some ''uid-1'', isAuthReady := True\<rparr>"

definition aspirin_form :: form_state where
  "aspirin_form = \<lparr>form_name = ''Aspirin'', form_dose = ''500mg'', form_time = ''08:00''\<rparr>"

definition aspirin :: medication where
  "aspirin =
     \<lparr>med_id = ''doc-1'', med_name = ''Aspirin'', med_dose = ''500mg'', med_time = ''08:00'',
      isTaken = False, createdAt = 1730548800123\<rparr>"

definition statin :: medication where
  "statin =
     \<lparr>med_id = ''doc-2'', med_name = ''Statin'', med_dose = ''20mg'', med_time = ''21:00'',
      isTaken = True, createdAt = 1730548900456\<rparr>"

definition example_world :: world where
  "example_world =
     \<lparr>app = signed_in_state\<lparr>medications := [statin, aspirin]\<rparr>, store = [aspirin, statin]\<rparr>"

section \<open>Properties\<close>

subsection \<open>Auxiliary facts\<close>

lemma split_on_absent: "c \<notin> set s \<Longrightarrow> split_on c s = [s]"
  by (induction s) auto

lemma replace_all_removes: "a \<noteq> b \<Longrightarrow> a \<notin> set (replace_all a b s)"
  by (auto simp: replace_all_def)

lemma replace_all_keeps_absent: "c \<notin> set s \<Longrightarrow> c \<noteq> b \<Longrightarrow> c \<notin> set (replace_all a b s)"
  by (auto simp: replace_all_def)

lemma parse_pair_without_equals: "CHR ''='' \<notin> set q \<Longrightarrow> snd (parse_pair q) = []"
proof -
  assume "CHR ''='' \<notin> set q"
  then have "dropWhile (\<lambda>c. c \<noteq> CHR ''='') q = []"
    by (auto simp: dropWhile_eq_Nil_conv)
  then show ?thesis
    by (simp only: parse_pair_def form_decode_def snd_conv drop.simps list.map
          percent_decode.simps)
qed

lemma find_Some_member: "find P xs = Some x \<Longrightarrow> x \<in> set xs"
  by (induction xs) (auto split: if_splits)

lemma URLSearchParams_values_empty:
  assumes "CHR ''&'' \<notin> set s" and "CHR ''='' \<notin> set s"
  shows "\<forall>p \<in> set (URLSearchParams s). snd p = []"
proof -
  let ?t = "(case s of c # rest \<Rightarrow> if c = CHR ''?'' then rest else s | [] \<Rightarrow> s)"
  have "set ?t \<subseteq> set s" by (auto split: list.splits)
  with assms have "CHR ''&'' \<notin> set ?t" and "CHR ''='' \<notin> set ?t" by auto
  then show ?thesis
    using split_on_absent [of "CHR ''&''" ?t] parse_pair_without_equals [of ?t]
    by (auto simp: URLSearchParams_def Let_def)
qed

lemma oauth_params_values_empty: "\<forall>p \<in> set (oauth_params hash). snd p = []"
  unfolding oauth_params_def
  by (rule URLSearchParams_values_empty)
     (simp_all add: replace_all_removes replace_all_keeps_absent)

lemma oauth_accessToken_falsy: "\<not> truthy_str (oauth_accessToken hash)"
proof (cases "find (\<lambda>(key, v). prefix ''access_token'' key) (oauth_params hash)")
  case None
  then show ?thesis by (simp add: oauth_accessToken_def truthy_str_def)
next
  case (Some p)
  then have "p \<in> set (oauth_params hash)" by (rule find_Some_member)
  with oauth_params_values_empty [of hash] have "snd p = []" by blast
  with Some show ?thesis by (simp add: oauth_accessToken_def truthy_str_def)
qed

lemma oauth_effect_identity: "oauth_effect hash st = (st, hash)"
  by (simp add: oauth_effect_def oauth_accessToken_falsy)

lemma js_rem_nonneg: "0 \<le> a \<Longrightarrow> 0 < b \<Longrightarrow> js_rem a b = a mod b"
  by (cases "a = 0") (simp_all add: js_rem_def)

lemma endTimeMs_nonneg: "0 \<le> now \<Longrightarrow> endTimeMs now = (now div 86400000) * 86400000 - 1"
proof -
  assume nonneg: "0 \<le> now"
  have "now - now mod 86400000 = (now div 86400000) * 86400000"
    by (simp add: minus_mod_eq_div_mult)
  with nonneg show ?thesis by (simp add: endTimeMs_def oneDayMs_def js_rem_nonneg)
qed

lemma fetchSteps_request:
  assumes "googleAccessToken st = Some token" and "token \<noteq> []"
  shows "sr_request (fetchSteps rt now outcome st) = Some (fit_fetch token now)"
  using assms
  by (simp add: fetchSteps_def fetchSteps_catch_def Let_def
        split: fetch_outcome.splits body_result.splits sum.splits)

lemma chain_undefined: "ps \<noteq> [] \<Longrightarrow> chain JUndefined ps = JUndefined"
proof (induction ps)
  case Nil
  then show ?case by simp
next
  case (Cons p ps)
  then show ?case by (cases p; cases ps) (simp_all add: opt_get_def)
qed

lemma step_Some_Key: "json_step v (Key k) = Some w \<Longrightarrow> opt_get v k = w"
  by (cases v) (simp_all add: opt_get_def)

lemma step_None_Key: "json_step v (Key k) = None \<Longrightarrow> opt_get v k = JUndefined"
  by (cases v) (simp_all add: opt_get_def)

lemma step_Some_First: "json_step v First = Some w \<Longrightarrow> opt_first v = w"
  by (cases v rule: opt_first.cases) (auto split: list.splits)

lemma step_None_First: "json_step v First = None \<Longrightarrow> opt_first v = JUndefined"
  by (cases v rule: opt_first.cases) (auto split: list.splits)

lemma chain_present: "json_path v ps = Some w \<Longrightarrow> chain v ps = w"
proof (induction ps arbitrary: v)
  case Nil
  then show ?case by simp
next
  case (Cons p ps)
  then obtain u where u: "json_step v p = Some u" "json_path u ps = Some w"
    by (auto split: option.splits)
  with Cons.IH have "chain u ps = w" by blast
  with u(1) show ?case by (cases p) (simp_all add: step_Some_Key step_Some_First)
qed

lemma chain_absent: "json_path v ps = None \<Longrightarrow> chain v ps = JUndefined"
proof (induction ps arbitrary: v)
  case Nil
  then show ?case by simp
next
  case (Cons p ps)
  show ?case
  proof (cases "json_step v p")
    case None
    then have "chain v (p # ps) = chain JUndefined ps"
      by (cases p) (simp_all add: step_None_Key step_None_First)
    then show ?thesis by (cases "ps = []") (simp_all add: chain_undefined)
  next
    case (Some u)
    with Cons.prems have "json_path u ps = None" by simp
    with Cons.IH have "chain u ps = JUndefined" by blast
    with Some show ?thesis by (cases p) (simp_all add: step_Some_Key step_Some_First)
  qed
qed

lemma extract_steps_chain:
  "\<not> nullish data \<Longrightarrow> extract_steps rt data = Inr (js_or (chain data intVal_path) (JNum 0))"
  by (simp add: extract_steps_def js_get_def intVal_path_def opt_get_def Let_def)

lemma extract_steps_nullish:
  "nullish data \<Longrightarrow> extract_steps rt data = Inl (JsError (null_read_message rt ''bucket''))"
  by (simp add: extract_steps_def js_get_def)

lemma json_path_nullish: "nullish data \<Longrightarrow> json_path data intVal_path = None"
  by (cases data) (simp_all add: intVal_path_def)

lemma fetchSteps_ok_value:
  assumes "googleAccessToken st = Some token" and "token \<noteq> []" and "response_ok status"
  shows "sr_value (fetchSteps rt now (Response status statusText (BodyJson data)) st) =
           (case extract_steps rt data of Inl e \<Rightarrow> JNum 0 | Inr v \<Rightarrow> v)"
  using assms
  by (simp add: fetchSteps_def fetchSteps_catch_def Let_def split: sum.splits)

lemma connected_state_token: "googleAccessToken connected_state = Some ''ya29.token''"
  by (simp add: connected_state_def)

subsection \<open>The OAuth redirect fragment\<close>

text \<open>
  C1. For every redirect fragment that contains an \<open>access_token\<close> parameter and whose
  \<open>state\<close> parameter equals \<open>google-fit-connect\<close>, the parser should extract the token
  and hold it. The code does not: on the fragment
  \<open>#access_token=abc123&state=google-fit-connect\<close>, which carries both parameters, the
  two replacements leave a single parameter with an empty value, the token read from it
  is the empty string, and the state, the held token and the address are left as they
  were.
\<close>

theorem oauth_valid_fragment_token_not_held:
  "spec_fragment_param ''access_token'' ''#access_token=abc123&state=google-fit-connect''
     = Some ''abc123''
   \<and> spec_fragment_param ''state'' ''#access_token=abc123&state=google-fit-connect''
     = Some ''google-fit-connect''
   \<and> oauth_params ''#access_token=abc123&state=google-fit-connect''
     = [(''access_token:abc123,state:google-fit-connect'', [])]
   \<and> oauth_accessToken ''#access_token=abc123&state=google-fit-connect'' = Some []
   \<and> oauth_state ''#access_token=abc123&state=google-fit-connect'' = None
   \<and> googleAccessToken
       (fst (oauth_effect ''#access_token=abc123&state=google-fit-connect'' initial_state))
     = None"
  by (simp add: spec_fragment_param_def oauth_effect_def oauth_accessToken_def oauth_state_def
        oauth_params_def URLSearchParams_def parse_pair_def form_decode_def replace_all_def
        truthy_str_def initial_state_def)

text \<open>
  C7. For every redirect fragment whose \<open>state\<close> parameter is anything other than
  \<open>google-fit-connect\<close> (a missing \<open>state\<close> included), the parser changes nothing: the
  state of the component and the address are as before, and the token of the freshly
  loaded page stays unset.
\<close>

theorem oauth_other_state_changes_nothing:
  assumes "spec_fragment_param ''state'' hash \<noteq> Some ''google-fit-connect''"
  shows "oauth_effect hash st = (st, hash)
         \<and> googleAccessToken (fst (oauth_effect hash initial_state)) = None"
  by (simp add: oauth_effect_identity initial_state_def)

theorem oauth_other_state_changes_nothing_witness:
  "spec_fragment_param ''state'' ''#access_token=abc123&state=forged'' \<noteq> Some ''google-fit-connect''
   \<and> oauth_effect ''#access_token=abc123&state=forged'' connected_state
       = (connected_state, ''#access_token=abc123&state=forged'')
   \<and> googleAccessToken (fst (oauth_effect ''#access_token=abc123&state=forged'' initial_state))
       = None"
proof -
  have other: "spec_fragment_param ''state'' ''#access_token=abc123&state=forged''
                 \<noteq> Some ''google-fit-connect''"
    by (simp add: spec_fragment_param_def URLSearchParams_def parse_pair_def form_decode_def)
  from oauth_other_state_changes_nothing [OF other, of connected_state] other
  show ?thesis by simp
qed

subsection \<open>fetchSteps\<close>

text \<open>
  C2, as the specification states it: the request's \<open>startTimeMillis\<close> and
  \<open>endTimeMillis\<close> are the UTC midnights that bound the prior day. Not so: at
  \<open>now = 1730548800123\<close> (2 November 2024, 12:00:00.123 UTC) the midnight that begins the
  day is \<open>1730505600000\<close>, and the request carries \<open>1730505599999\<close> and
  \<open>1730419199999\<close>, each one millisecond before a midnight.
\<close>

theorem request_bounds_miss_midnight:
  "sr_request (fetchSteps example_runtime 1730548800123 (FetchRejected (JsError [])) connected_state)
     = Some (fit_fetch ''ya29.token'' 1730548800123)
   \<and> endTimeMillis (fit_body (fit_fetch ''ya29.token'' 1730548800123))
       \<noteq> 1730548800123 div 86400000 * 86400000
   \<and> startTimeMillis (fit_body (fit_fetch ''ya29.token'' 1730548800123))
       \<noteq> 1730548800123 div 86400000 * 86400000 - 86400000"
  by (simp add: fetchSteps_request connected_state_token fit_fetch_def requestBody_def
        endTimeMs_def startTimeMs_def oneDayMs_def js_rem_def)

text \<open>
  C2, amended. For every current time \<open>now \<ge> 0\<close> (milliseconds since the epoch) and
  every call that sends a request, \<open>endTimeMillis\<close> is the last millisecond of the prior
  UTC calendar day, \<open>floor(now / 86400000) * 86400000 - 1\<close>, one millisecond before the
  UTC midnight that begins the current day, and the request asks for buckets of one day
  (86400000 ms).
\<close>

theorem fetchSteps_end_bound:
  assumes "googleAccessToken st = Some token" and "token \<noteq> []" and "0 \<le> now"
  shows "\<exists>req. sr_request (fetchSteps rt now outcome st) = Some req
           \<and> endTimeMillis (fit_body req) = (now div 86400000) * 86400000 - 1
           \<and> bucketByTime_durationMillis (fit_body req) = 86400000"
proof -
  have "sr_request (fetchSteps rt now outcome st) = Some (fit_fetch token now)"
    using assms(1,2) by (rule fetchSteps_request)
  moreover have "endTimeMillis (fit_body (fit_fetch token now)) = (now div 86400000) * 86400000 - 1"
    using assms(3) by (simp add: fit_fetch_def requestBody_def endTimeMs_nonneg)
  moreover have "bucketByTime_durationMillis (fit_body (fit_fetch token now)) = 86400000"
    by (simp add: fit_fetch_def requestBody_def oneDayMs_def)
  ultimately show ?thesis by blast
qed

theorem fetchSteps_end_bound_witness:
  "googleAccessToken connected_state = Some ''ya29.token'' \<and> ''ya29.token'' \<noteq> []
   \<and> (0::int) \<le> 1730548800123
   \<and> (\<exists>req. sr_request (fetchSteps example_runtime 1730548800123
                 (FetchRejected (JsError [])) connected_state) = Some req
         \<and> endTimeMillis (fit_body req) = 1730505599999
         \<and> bucketByTime_durationMillis (fit_body req) = 86400000)"
proof -
  have tok: "googleAccessToken connected_state = Some ''ya29.token''"
    by (rule connected_state_token)
  have ne: "''ya29.token'' \<noteq> []" by simp
  have nonneg: "(0::int) \<le> 1730548800123" by simp
  from fetchSteps_end_bound [OF tok ne nonneg, of example_runtime "FetchRejected (JsError [])"]
  obtain req where
    "sr_request (fetchSteps example_runtime 1730548800123
                   (FetchRejected (JsError [])) connected_state) = Some req"
    "endTimeMillis (fit_body req) = (1730548800123 div 86400000) * 86400000 - 1"
    "bucketByTime_durationMillis (fit_body req) = 86400000"
    by blast
  then have "sr_request (fetchSteps example_runtime 1730548800123
                   (FetchRejected (JsError [])) connected_state) = Some req
             \<and> endTimeMillis (fit_body req) = 1730505599999
             \<and> bucketByTime_durationMillis (fit_body req) = 86400000"
    by simp
  with tok ne nonneg show ?thesis by blast
qed

text \<open>
  C5. For every response with a success status, \<open>fetchSteps\<close> returns the integer at
  \<open>bucket[0].dataset[0].point[0].value[0].intVal\<close> when that path is present, and
  returns 0 when any link of the path is absent (an empty \<open>bucket\<close> array among them).
\<close>

theorem fetchSteps_reads_intVal:
  assumes "googleAccessToken st = Some token" and "token \<noteq> []" and "response_ok status"
  shows "(json_path data intVal_path = Some (JNum n) \<longrightarrow>
            sr_value (fetchSteps rt now (Response status statusText (BodyJson data)) st) = JNum n)
       \<and> (json_path data intVal_path = None \<longrightarrow>
            sr_value (fetchSteps rt now (Response status statusText (BodyJson data)) st) = JNum 0)"
proof (cases "nullish data")
  case True
  then show ?thesis
    using assms by (simp add: fetchSteps_ok_value extract_steps_nullish json_path_nullish)
next
  case False
  then show ?thesis
    using assms
    by (auto simp: fetchSteps_ok_value extract_steps_chain chain_present chain_absent js_or_def)
qed

theorem fetchSteps_reads_intVal_witness:
  "googleAccessToken connected_state = Some ''ya29.token'' \<and> ''ya29.token'' \<noteq> []
   \<and> response_ok 200
   \<and> json_path (steps_response 4321) intVal_path = Some (JNum 4321)
   \<and> sr_value (fetchSteps example_runtime 1730548800123
        (Response 200 ''OK'' (BodyJson (steps_response 4321))) connected_state) = JNum 4321
   \<and> json_path (JObj [(''bucket'', JArr [])]) intVal_path = None
   \<and> sr_value (fetchSteps example_runtime 1730548800123
        (Response 200 ''OK'' (BodyJson (JObj [(''bucket'', JArr [])]))) connected_state) = JNum 0"
proof -
  have tok: "googleAccessToken connected_state = Some ''ya29.token''"
    by (rule connected_state_token)
  have ne: "''ya29.token'' \<noteq> []" by simp
  have ok: "response_ok 200" by (simp add: response_ok_def)
  have present: "json_path (steps_response 4321) intVal_path = Some (JNum 4321)"
    by (simp add: steps_response_def intVal_path_def)
  have absent: "json_path (JObj [(''bucket'', JArr [])]) intVal_path = None"
    by (simp add: intVal_path_def)
  from fetchSteps_reads_intVal [OF tok ne ok, of "steps_response 4321" 4321 example_runtime
         1730548800123 "''OK''"] present
  have one: "sr_value (fetchSteps example_runtime 1730548800123
        (Response 200 ''OK'' (BodyJson (steps_response 4321))) connected_state) = JNum 4321"
    by blast
  from fetchSteps_reads_intVal [OF tok ne ok, of "JObj [(''bucket'', JArr [])]" 0 example_runtime
         1730548800123 "''OK''"] absent
  have two: "sr_value (fetchSteps example_runtime 1730548800123
        (Response 200 ''OK'' (BodyJson (JObj [(''bucket'', JArr [])]))) connected_state) = JNum 0"
    by blast
  from tok ne ok present one absent two show ?thesis by blast
qed

text \<open>
  C6. For every step-fetch call that receives an HTTP 401 response, the held token is
  cleared, the notice asks to reconnect, the call returns 0, and the displayed step
  count (like every other cell but the loading flag, which is reset) is left as it was.
\<close>

theorem fetchSteps_401_clears_token:
  assumes "googleAccessToken st = Some token" and "token \<noteq> []"
  shows "googleAccessToken (sr_state (fetchSteps rt now (Response 401 statusText body) st)) = None
       \<and> message (sr_state (fetchSteps rt now (Response 401 statusText body) st))
           = Some \<lparr>ntype = error,
                   ntext = ''Google Fit token expired. Please reconnect to Google Fit.''\<rparr>
       \<and> sr_value (fetchSteps rt now (Response 401 statusText body) st) = JNum 0
       \<and> stepCount (sr_state (fetchSteps rt now (Response 401 statusText body) st)) = stepCount st
       \<and> sr_state (fetchSteps rt now (Response 401 statusText body) st)
           = st\<lparr>message := Some \<lparr>ntype = error,
                   ntext = ''Google Fit token expired. Please reconnect to Google Fit.''\<rparr>,
                googleAccessToken := None, isFitLoading := False\<rparr>"
  using assms by (simp add: fetchSteps_def response_ok_def Let_def)

theorem fetchSteps_401_clears_token_witness:
  "googleAccessToken (connected_state\<lparr>stepCount := Some (JNum 4321)\<rparr>) = Some ''ya29.token''
   \<and> ''ya29.token'' \<noteq> []
   \<and> googleAccessToken (sr_state (fetchSteps example_runtime 1730548800123
        (Response 401 ''Unauthorized'' (BodyJson JNull))
        (connected_state\<lparr>stepCount := Some (JNum 4321)\<rparr>))) = None
   \<and> sr_value (fetchSteps example_runtime 1730548800123
        (Response 401 ''Unauthorized'' (BodyJson JNull))
        (connected_state\<lparr>stepCount := Some (JNum 4321)\<rparr>)) = JNum 0
   \<and> stepCount (sr_state (fetchSteps example_runtime 1730548800123
        (Response 401 ''Unauthorized'' (BodyJson JNull))
        (connected_state\<lparr>stepCount := Some (JNum 4321)\<rparr>))) = Some (JNum 4321)"
proof -
  have tok: "googleAccessToken (connected_state\<lparr>stepCount := Some (JNum 4321)\<rparr>)
               = Some ''ya29.token''"
    by (simp add: connected_state_def)
  have ne: "''ya29.token'' \<noteq> []" by simp
  from fetchSteps_401_clears_token [OF tok ne, of example_runtime 1730548800123
         "''Unauthorized''" "BodyJson JNull"] tok ne
  show ?thesis by simp
qed

subsection \<open>The assistant\<close>

lemma truthy_not_nullish: "truthy v \<Longrightarrow> \<not> nullish v"
  by (cases v) simp_all

lemma opt_get_falsy: "\<not> truthy v \<Longrightarrow> opt_get v k = JUndefined"
  by (cases v) (simp_all add: opt_get_def)

lemma js_member_falsy: "\<not> truthy v \<Longrightarrow> js_member v k = JUndefined"
  by (cases v) simp_all

text \<open>Once the optional chain of line 254 is truthy, the plain reads of line 255 do not throw.\<close>

lemma plain_text_eq:
  assumes "truthy (opt_get (opt_first (opt_get (js_member c ''content'') ''parts'')) ''text'')"
      and "\<not> nullish c"
  shows "plain_text rt c =
           Inr (opt_get (opt_first (opt_get (js_member c ''content'') ''parts'')) ''text'')"
proof -
  let ?content = "js_member c ''content''"
  let ?parts = "opt_get ?content ''parts''"
  let ?part = "opt_first ?parts"
  have p3: "\<not> nullish ?part" using assms(1) by (auto simp: opt_get_def)
  have p2: "\<not> nullish ?parts" using p3 by (cases ?parts) auto
  have p1: "\<not> nullish ?content" using p2 by (auto simp: opt_get_def)
  show ?thesis
    using assms(2) p1 p2 p3
    by (simp add: plain_text_def js_get_def js_first_def opt_get_def)
qed

lemma reply_entry_chain:
  assumes "\<not> nullish result"
  shows "reply_entry rt result =
     (if truthy (chain result text_path) then
        (case grounding_sources rt (chain result grounding_path) of
           Inl e \<Rightarrow> Inl e
         | Inr sources \<Rightarrow> Inr \<lparr>entry_role = model, entry_text = chain result text_path,
                               entry_sources = Some sources\<rparr>)
      else Inr model_error_entry)"
proof -
  let ?cand = "opt_first (js_member result ''candidates'')"
  have g: "js_get rt result ''candidates'' = Inr (js_member result ''candidates'')"
    using assms by (simp add: js_get_def)
  show ?thesis
  proof (cases "truthy ?cand")
    case False
    then have "chain result text_path = JUndefined"
      using assms by (simp add: text_path_def opt_get_def js_member_falsy opt_get_falsy)
    with False g show ?thesis by (simp add: reply_entry_def Let_def)
  next
    case True
    then have nn: "\<not> nullish ?cand" by (rule truthy_not_nullish)
    let ?text = "opt_get (opt_first (opt_get (js_member ?cand ''content'') ''parts'')) ''text''"
    have t: "chain result text_path = ?text"
      using assms nn by (simp add: text_path_def opt_get_def)
    have gm: "chain result grounding_path = js_member ?cand ''groundingMetadata''"
      using assms nn by (simp add: grounding_path_def opt_get_def)
    have lhs: "reply_entry rt result =
       (if truthy ?text then
          (case grounding_sources rt (js_member ?cand ''groundingMetadata'') of
             Inl e \<Rightarrow> Inl e
           | Inr sources \<Rightarrow> Inr \<lparr>entry_role = model, entry_text = ?text,
                                 entry_sources = Some sources\<rparr>)
        else Inr model_error_entry)"
      using True g nn
      by (simp add: reply_entry_def Let_def plain_text_eq)
    show ?thesis by (simp only: lhs t gm)
  qed
qed

lemma reply_entry_nullish:
  "nullish result \<Longrightarrow> reply_entry rt result = Inl (JsError (null_read_message rt ''candidates''))"
  by (simp add: reply_entry_def js_get_def)

lemma reply_entry_role: "reply_entry rt result = Inr entry \<Longrightarrow> entry_role entry = model"
  by (auto simp: reply_entry_def Let_def model_error_entry_def split: sum.splits if_splits)

lemma settle_appends_settled_entry:
  "handleGeminiQuery_settle rt outcome st =
     st\<lparr>chatHistory := chatHistory st @ [settled_entry rt outcome], isChatLoading := False\<rparr>"
  by (simp add: handleGeminiQuery_settle_def settled_entry_def
        split: fetch_outcome.splits body_result.splits sum.splits)

lemma settled_entry_role: "entry_role (settled_entry rt outcome) = model"
  by (auto simp: settled_entry_def connect_error_entry_def reply_entry_role
        split: fetch_outcome.splits body_result.splits sum.splits)

lemma text_path_not_nullish: "json_path result text_path = Some t \<Longrightarrow> \<not> nullish result"
  by (cases result) (simp_all add: text_path_def)

text \<open>
  C3, as the specification states it: on every invocation, the step-assessment prompt
  included, the new user turn is appended to the existing transcript and the request
  carries the full transcript. Not so for a custom prompt: with two entries in the
  transcript, the step-assessment prompt leaves a transcript of one entry, the new turn,
  and the request carries that single turn.
\<close>

theorem assistant_custom_prompt_replaces_transcript:
  "chatHistory chatting_state = [question_turn, answer_turn]
   \<and> chatHistory (fst (handleGeminiQuery_send
        (Some (assess_prompt example_runtime (JNum 0))) True chatting_state))
       = [\<lparr>entry_role = user, entry_text = JStr (assess_prompt example_runtime (JNum 0)),
           entry_sources = None\<rparr>]
   \<and> \<not> prefix (chatHistory chatting_state)
         (chatHistory (fst (handleGeminiQuery_send
            (Some (assess_prompt example_runtime (JNum 0))) True chatting_state)))
   \<and> map_option contents (snd (handleGeminiQuery_send
        (Some (assess_prompt example_runtime (JNum 0))) True chatting_state))
       = Some [\<lparr>entry_role = user, entry_text = JStr (assess_prompt example_runtime (JNum 0)),
                entry_sources = None\<rparr>]"
  by (simp add: handleGeminiQuery_send_def truthy_str_def Let_def chatting_state_def
        assess_prompt_def question_turn_def)

text \<open>
  C3, amended. For every prior transcript and every ordinary user submission (no custom
  prompt, or an empty one) whose input is not blank, the new user turn is appended to
  the existing transcript, every earlier entry preserved in order, and the request
  carries that full transcript. A non-empty custom prompt (the synthetic
  step-assessment prompt) is sent without the earlier entries: its request carries the
  new user turn alone.
\<close>

theorem assistant_send_transcript:
  "(\<not> truthy_str customPrompt \<and> trim (chatInput st) \<noteq> [] \<longrightarrow>
      chatHistory (fst (handleGeminiQuery_send customPrompt isFitQuery st))
        = chatHistory st @ [\<lparr>entry_role = user, entry_text = JStr (chatInput st),
                              entry_sources = None\<rparr>]
      \<and> map_option contents (snd (handleGeminiQuery_send customPrompt isFitQuery st))
        = Some (chatHistory st @ [\<lparr>entry_role = user, entry_text = JStr (chatInput st),
                                    entry_sources = None\<rparr>]))
   \<and> (truthy_str customPrompt \<longrightarrow>
      map_option contents (snd (handleGeminiQuery_send customPrompt isFitQuery st))
        = Some [\<lparr>entry_role = user, entry_text = JStr (the customPrompt),
                  entry_sources = None\<rparr>])"
  by (auto simp: handleGeminiQuery_send_def truthy_str_def Let_def split: option.splits)

theorem assistant_send_transcript_witness:
  "\<not> truthy_str None \<and> trim (chatInput chatting_state) \<noteq> []
   \<and> chatHistory (fst (handleGeminiQuery_send None False chatting_state))
       = [question_turn, answer_turn,
          \<lparr>entry_role = user, entry_text = JStr ''And cycling?'', entry_sources = None\<rparr>]
   \<and> map_option contents (snd (handleGeminiQuery_send None False chatting_state))
       = Some [question_turn, answer_turn,
          \<lparr>entry_role = user, entry_text = JStr ''And cycling?'', entry_sources = None\<rparr>]
   \<and> truthy_str (Some ''Yesterday'')
   \<and> map_option contents (snd (handleGeminiQuery_send (Some ''Yesterday'') True chatting_state))
       = Some [\<lparr>entry_role = user, entry_text = JStr ''Yesterday'', entry_sources = None\<rparr>]"
proof -
  have a: "\<not> truthy_str None" by (simp add: truthy_str_def)
  have b: "trim (chatInput chatting_state) \<noteq> []"
    by (simp add: chatting_state_def trim_def white_space1_def white_space2_def
          white_space3_def)
  have c: "truthy_str (Some ''Yesterday'')" by (simp add: truthy_str_def)
  from assistant_send_transcript [of None chatting_state False] a b
  have one: "chatHistory (fst (handleGeminiQuery_send None False chatting_state))
       = [question_turn, answer_turn,
          \<lparr>entry_role = user, entry_text = JStr ''And cycling?'', entry_sources = None\<rparr>]
     \<and> map_option contents (snd (handleGeminiQuery_send None False chatting_state))
       = Some [question_turn, answer_turn,
          \<lparr>entry_role = user, entry_text = JStr ''And cycling?'', entry_sources = None\<rparr>]"
    by (simp add: chatting_state_def)
  from assistant_send_transcript [of "Some ''Yesterday''" chatting_state True] c
  have two: "map_option contents
               (snd (handleGeminiQuery_send (Some ''Yesterday'') True chatting_state))
       = Some [\<lparr>entry_role = user, entry_text = JStr ''Yesterday'', entry_sources = None\<rparr>]"
    by simp
  from a b c one two show ?thesis by blast
qed

lemma trim_no_break_space: "trim [CHR 0xC2, CHR 0xA0] = []"
  by (simp add: trim_def white_space1_def white_space2_def white_space3_def)

lemma blank_input_sends_nothing:
  "trim (chatInput st) = [] \<Longrightarrow> \<not> truthy_str customPrompt \<Longrightarrow>
     handleGeminiQuery_send customPrompt isFitQuery st = (st, None)"
  by (simp add: handleGeminiQuery_send_def)

text \<open>The citations that lines 256-262 collect are those of the link-by-link reading.\<close>

lemma map_attributions_null:
  "list_ex nullish atts \<Longrightarrow>
     map_attributions rt atts = Inl (JsError (null_read_message rt ''web''))"
  by (induction atts) (auto simp: js_get_def split: sum.splits)

lemma map_attributions_read:
  "\<not> list_ex nullish atts \<Longrightarrow>
     map_attributions rt atts =
       Inr (map (\<lambda>a. (opt_get (js_member a ''web'') ''uri'',
                        opt_get (js_member a ''web'') ''title'')) atts)"
  by (induction atts) (auto simp: js_get_def)

lemma attribution_part:
  assumes "\<not> nullish a"
  shows "opt_get (js_member a ''web'') k = chain a [Key ''web'', Key k]"
  using assms by (simp add: opt_get_def)

lemma spec_citation_filter:
  assumes "\<not> nullish a"
  shows "filter (\<lambda>(uri, title). truthy uri \<and> truthy title)
           [(opt_get (js_member a ''web'') ''uri'', opt_get (js_member a ''web'') ''title'')]
         = spec_citation a"
proof -
  have u: "opt_get (js_member a ''web'') ''uri'' =
            (case json_path a [Key ''web'', Key ''uri''] of Some v \<Rightarrow> v | None \<Rightarrow> JUndefined)"
    using chain_present [of a "[Key ''web'', Key ''uri'']"]
          chain_absent [of a "[Key ''web'', Key ''uri'']"]
    by (simp only: attribution_part [OF assms] split: option.split) blast
  have t: "opt_get (js_member a ''web'') ''title'' =
            (case json_path a [Key ''web'', Key ''title''] of Some v \<Rightarrow> v | None \<Rightarrow> JUndefined)"
    using chain_present [of a "[Key ''web'', Key ''title'']"]
          chain_absent [of a "[Key ''web'', Key ''title'']"]
    by (simp only: attribution_part [OF assms] split: option.split) blast
  show ?thesis
    by (simp only: u t spec_citation_def) (simp split: option.splits)
qed

lemma filter_attributions:
  "\<not> list_ex nullish atts \<Longrightarrow>
     filter (\<lambda>(uri, title). truthy uri \<and> truthy title)
       (map (\<lambda>a. (opt_get (js_member a ''web'') ''uri'',
                   opt_get (js_member a ''web'') ''title'')) atts)
     = concat (map spec_citation atts)"
proof (induction atts)
  case Nil
  then show ?case by simp
next
  case (Cons a atts)
  then have a: "\<not> nullish a" and rest: "\<not> list_ex nullish atts" by simp_all
  have "filter (\<lambda>(uri, title). truthy uri \<and> truthy title)
         (map (\<lambda>a. (opt_get (js_member a ''web'') ''uri'',
                     opt_get (js_member a ''web'') ''title'')) (a # atts))
        = filter (\<lambda>(uri, title). truthy uri \<and> truthy title)
           [(opt_get (js_member a ''web'') ''uri'', opt_get (js_member a ''web'') ''title'')]
          @ filter (\<lambda>(uri, title). truthy uri \<and> truthy title)
              (map (\<lambda>a. (opt_get (js_member a ''web'') ''uri'',
                          opt_get (js_member a ''web'') ''title'')) atts)"
    by simp
  also have "\<dots> = spec_citation a @ concat (map spec_citation atts)"
    by (simp only: spec_citation_filter [OF a] Cons.IH [OF rest])
  finally show ?case by simp
qed

lemma grounding_sources_opt:
  "grounding_sources rt gm =
     (if truthy (opt_get gm ''groundingAttributions'') then
        (case opt_get gm ''groundingAttributions'' of
           JArr attributions \<Rightarrow>
             (case map_attributions rt attributions of
                Inl e \<Rightarrow> Inl e
              | Inr srcs \<Rightarrow> Inr (filter (\<lambda>(uri, title). truthy uri \<and> truthy title) srcs))
         | _ \<Rightarrow> Inl (JsError (not_a_function_message rt ''map'')))
      else Inr [])"
proof (cases "truthy gm")
  case True
  then have "opt_get gm ''groundingAttributions'' = js_member gm ''groundingAttributions''"
    by (simp add: opt_get_def truthy_not_nullish)
  with True show ?thesis by (simp add: grounding_sources_def)
next
  case False
  then show ?thesis by (simp add: grounding_sources_def opt_get_falsy)
qed

lemma attributions_chain:
  "chain result attributions_path
     = opt_get (chain result grounding_path) ''groundingAttributions''"
  by (simp add: attributions_path_def grounding_path_def)

lemma grounding_sources_spec:
  "grounding_sources rt (chain result grounding_path) =
     (case spec_citations result of
        Citations cs \<Rightarrow> Inr cs
      | NotAList \<Rightarrow> Inl (JsError (not_a_function_message rt ''map''))
      | NullAttribution \<Rightarrow> Inl (JsError (null_read_message rt ''web'')))"
proof (cases "json_path result attributions_path")
  case None
  then have "chain result attributions_path = JUndefined" by (rule chain_absent)
  then have "opt_get (chain result grounding_path) ''groundingAttributions'' = JUndefined"
    by (simp only: attributions_chain)
  with None show ?thesis
    by (simp add: grounding_sources_opt spec_citations_def)
next
  case (Some v)
  then have "chain result attributions_path = v" by (rule chain_present)
  then have v: "opt_get (chain result grounding_path) ''groundingAttributions'' = v"
    by (simp only: attributions_chain)
  show ?thesis
  proof (cases "\<exists>atts. v = JArr atts")
    case True
    then obtain atts where "v = JArr atts" by blast
    with Some v show ?thesis
      by (cases "list_ex nullish atts")
         (simp_all add: grounding_sources_opt spec_citations_def map_attributions_null
            map_attributions_read filter_attributions)
  next
    case False
    with Some v show ?thesis
      by (cases v) (simp_all add: grounding_sources_opt spec_citations_def)
  qed
qed

lemma settled_entry_text:
  assumes "json_path result text_path = Some t" and "truthy t"
  shows "settled_entry rt (Response status statusText (BodyJson result)) =
     (case spec_citations result of
        Citations cs \<Rightarrow> \<lparr>entry_role = model, entry_text = t, entry_sources = Some cs\<rparr>
      | NotAList \<Rightarrow> connect_error_entry (JsError (not_a_function_message rt ''map''))
      | NullAttribution \<Rightarrow> connect_error_entry (JsError (null_read_message rt ''web'')))"
proof -
  from assms(1) have "\<not> nullish result" by (rule text_path_not_nullish)
  with assms show ?thesis
    by (simp add: settled_entry_def reply_entry_chain chain_present grounding_sources_spec
          split: citation_reading.splits)
qed

text \<open>
  C4, as stated: the entry appended is the reply's text with its citations on success,
  and a synthetic error message on a failure, a failure being a network error or a
  response with missing content. Not so for a response that does hold a reply text but
  whose citation list cannot be read: with \<open>null\<close> in \<open>groundingAttributions\<close>, reading
  \<open>attribution.web\<close> throws, the \<open>catch\<close> block runs, and the entry appended is the
  "failed to connect" message, not the reply.
\<close>

theorem assistant_unreadable_citations_lose_reply:
  "json_path null_citation_response text_path = Some (JStr ''Cycling helps as well.'')
   \<and> truthy (JStr ''Cycling helps as well.'')
   \<and> chatHistory (handleGeminiQuery_settle example_runtime
        (Response 200 ''OK'' (BodyJson null_citation_response)) chatting_state)
       = [question_turn, answer_turn,
          \<lparr>entry_role = model,
           entry_text = JStr (''Failed to connect to AI: Cannot read properties of null (reading ''
                              @ [CHR 0x27] @ ''web'' @ [CHR 0x27] @ '').''),
           entry_sources = None\<rparr>]"
  by (simp add: null_citation_response_def text_path_def handleGeminiQuery_settle_def
        reply_entry_def js_get_def opt_get_def Let_def plain_text_def js_first_def
        grounding_sources_def connect_error_entry_def example_runtime_def chatting_state_def)

text \<open>
  C4, amended. Whenever a request that was sent settles, the transcript of that moment
  grows by exactly one entry, of role \<open>model\<close>, whatever the outcome, and nothing else
  changes but the loading flag. When the response holds a truthy text at
  \<open>candidates[0].content.parts[0].text\<close> and its citation list, if any, can be read,
  the entry is that text with its citations. When that text is missing or falsy, the
  entry is the message "Model response error: Could not generate content.". When the
  fetch fails, the body is not JSON, or reading the response throws (a \<open>null\<close> body, a
  citation list that is not a list or that holds \<open>null\<close>), the entry is
  "Failed to connect to AI: " followed by the error's message and a full stop.
\<close>

theorem assistant_settle_appends_one_model_entry:
  "\<exists>e. chatHistory (handleGeminiQuery_settle rt outcome st) = chatHistory st @ [e]
     \<and> entry_role e = model
     \<and> handleGeminiQuery_settle rt outcome st
         = st\<lparr>chatHistory := chatHistory st @ [e], isChatLoading := False\<rparr>
     \<and> (\<forall>err. outcome = FetchRejected err \<longrightarrow>
           e = \<lparr>entry_role = model,
                entry_text = JStr (''Failed to connect to AI: '' @ error_message err @ ''.''),
                entry_sources = None\<rparr>)
     \<and> (\<forall>status statusText err. outcome = Response status statusText (BodyRejected err) \<longrightarrow>
           e = \<lparr>entry_role = model,
                entry_text = JStr (''Failed to connect to AI: '' @ error_message err @ ''.''),
                entry_sources = None\<rparr>)
     \<and> (\<forall>status statusText result. outcome = Response status statusText (BodyJson result)
           \<and> nullish result \<longrightarrow>
           e = \<lparr>entry_role = model,
                entry_text = JStr (''Failed to connect to AI: ''
                                   @ null_read_message rt ''candidates'' @ ''.''),
                entry_sources = None\<rparr>)
     \<and> (\<forall>status statusText result. outcome = Response status statusText (BodyJson result)
           \<and> \<not> nullish result \<and> json_path result text_path = None \<longrightarrow>
           e = \<lparr>entry_role = model,
                entry_text = JStr ''Model response error: Could not generate content.'',
                entry_sources = None\<rparr>)
     \<and> (\<forall>status statusText result t. outcome = Response status statusText (BodyJson result)
           \<and> json_path result text_path = Some t \<and> \<not> truthy t \<longrightarrow>
           e = \<lparr>entry_role = model,
                entry_text = JStr ''Model response error: Could not generate content.'',
                entry_sources = None\<rparr>)
     \<and> (\<forall>status statusText result t cs. outcome = Response status statusText (BodyJson result)
           \<and> json_path result text_path = Some t \<and> truthy t
           \<and> spec_citations result = Citations cs \<longrightarrow>
           e = \<lparr>entry_role = model, entry_text = t, entry_sources = Some cs\<rparr>)
     \<and> (\<forall>status statusText result t. outcome = Response status statusText (BodyJson result)
           \<and> json_path result text_path = Some t \<and> truthy t
           \<and> spec_citations result = NotAList \<longrightarrow>
           e = \<lparr>entry_role = model,
                entry_text = JStr (''Failed to connect to AI: ''
                                   @ not_a_function_message rt ''map'' @ ''.''),
                entry_sources = None\<rparr>)
     \<and> (\<forall>status statusText result t. outcome = Response status statusText (BodyJson result)
           \<and> json_path result text_path = Some t \<and> truthy t
           \<and> spec_citations result = NullAttribution \<longrightarrow>
           e = \<lparr>entry_role = model,
                entry_text = JStr (''Failed to connect to AI: ''
                                   @ null_read_message rt ''web'' @ ''.''),
                entry_sources = None\<rparr>)"
proof (intro exI [of _ "settled_entry rt outcome"] conjI allI impI)
  show "chatHistory (handleGeminiQuery_settle rt outcome st)
          = chatHistory st @ [settled_entry rt outcome]"
    by (simp add: settle_appends_settled_entry)
  show "entry_role (settled_entry rt outcome) = model"
    by (rule settled_entry_role)
  show "handleGeminiQuery_settle rt outcome st
          = st\<lparr>chatHistory := chatHistory st @ [settled_entry rt outcome],
               isChatLoading := False\<rparr>"
    by (rule settle_appends_settled_entry)
next
  fix err
  assume "outcome = FetchRejected err"
  then show "settled_entry rt outcome =
       \<lparr>entry_role = model,
        entry_text = JStr (''Failed to connect to AI: '' @ error_message err @ ''.''),
        entry_sources = None\<rparr>"
    by (simp add: settled_entry_def connect_error_entry_def)
next
  fix status statusText err
  assume "outcome = Response status statusText (BodyRejected err)"
  then show "settled_entry rt outcome =
       \<lparr>entry_role = model,
        entry_text = JStr (''Failed to connect to AI: '' @ error_message err @ ''.''),
        entry_sources = None\<rparr>"
    by (simp add: settled_entry_def connect_error_entry_def)
next
  fix status statusText result
  assume "outcome = Response status statusText (BodyJson result) \<and> nullish result"
  then show "settled_entry rt outcome =
       \<lparr>entry_role = model,
        entry_text = JStr (''Failed to connect to AI: ''
                           @ null_read_message rt ''candidates'' @ ''.''),
        entry_sources = None\<rparr>"
    by (simp add: settled_entry_def reply_entry_nullish connect_error_entry_def)
next
  fix status statusText result
  assume "outcome = Response status statusText (BodyJson result)
            \<and> \<not> nullish result \<and> json_path result text_path = None"
  then show "settled_entry rt outcome =
       \<lparr>entry_role = model,
        entry_text = JStr ''Model response error: Could not generate content.'',
        entry_sources = None\<rparr>"
    by (simp add: settled_entry_def reply_entry_chain chain_absent model_error_entry_def)
next
  fix status statusText result t
  assume a: "outcome = Response status statusText (BodyJson result)
            \<and> json_path result text_path = Some t \<and> \<not> truthy t"
  then have "\<not> nullish result" by (blast dest: text_path_not_nullish)
  with a show "settled_entry rt outcome =
       \<lparr>entry_role = model,
        entry_text = JStr ''Model response error: Could not generate content.'',
        entry_sources = None\<rparr>"
    by (simp add: settled_entry_def reply_entry_chain chain_present model_error_entry_def)
next
  fix status statusText result t cs
  assume "outcome = Response status statusText (BodyJson result)
            \<and> json_path result text_path = Some t \<and> truthy t
            \<and> spec_citations result = Citations cs"
  then show "settled_entry rt outcome
               = \<lparr>entry_role = model, entry_text = t, entry_sources = Some cs\<rparr>"
    by (simp add: settled_entry_text)
next
  fix status statusText result t
  assume "outcome = Response status statusText (BodyJson result)
            \<and> json_path result text_path = Some t \<and> truthy t
            \<and> spec_citations result = NotAList"
  then show "settled_entry rt outcome =
       \<lparr>entry_role = model,
        entry_text = JStr (''Failed to connect to AI: ''
                           @ not_a_function_message rt ''map'' @ ''.''),
        entry_sources = None\<rparr>"
    by (simp add: settled_entry_text connect_error_entry_def)
next
  fix status statusText result t
  assume "outcome = Response status statusText (BodyJson result)
            \<and> json_path result text_path = Some t \<and> truthy t
            \<and> spec_citations result = NullAttribution"
  then show "settled_entry rt outcome =
       \<lparr>entry_role = model,
        entry_text = JStr (''Failed to connect to AI: ''
                           @ null_read_message rt ''web'' @ ''.''),
        entry_sources = None\<rparr>"
    by (simp add: settled_entry_text connect_error_entry_def)
qed

theorem assistant_settle_appends_one_model_entry_witness:
  "json_path cited_response text_path = Some (JStr ''Cycling helps as well.'')
   \<and> truthy (JStr ''Cycling helps as well.'')
   \<and> spec_citations cited_response
       = Citations [(JStr ''https://example.org/cycling'', JStr ''Cycling and the heart'')]
   \<and> chatHistory (handleGeminiQuery_settle example_runtime
        (Response 200 ''OK'' (BodyJson cited_response)) chatting_state)
       = [question_turn, answer_turn,
          \<lparr>entry_role = model, entry_text = JStr ''Cycling helps as well.'',
           entry_sources = Some [(JStr ''https://example.org/cycling'',
                                  JStr ''Cycling and the heart'')]\<rparr>]
   \<and> chatHistory (handleGeminiQuery_settle example_runtime
        (FetchRejected (JsError ''Failed to fetch'')) chatting_state)
       = [question_turn, answer_turn,
          \<lparr>entry_role = model,
           entry_text = JStr ''Failed to connect to AI: Failed to fetch.'',
           entry_sources = None\<rparr>]
   \<and> \<not> nullish (JObj []) \<and> json_path (JObj []) text_path = None
   \<and> chatHistory (handleGeminiQuery_settle example_runtime
        (Response 200 ''OK'' (BodyJson (JObj []))) chatting_state)
       = [question_turn, answer_turn,
          \<lparr>entry_role = model,
           entry_text = JStr ''Model response error: Could not generate content.'',
           entry_sources = None\<rparr>]"
proof -
  have present: "json_path cited_response text_path = Some (JStr ''Cycling helps as well.'')"
    by (simp add: cited_response_def text_path_def)
  have tr: "truthy (JStr ''Cycling helps as well.'')" by simp
  have cites: "spec_citations cited_response
       = Citations [(JStr ''https://example.org/cycling'', JStr ''Cycling and the heart'')]"
    by (simp add: spec_citations_def cited_response_def attributions_path_def
          spec_citation_def)
  have nn: "\<not> nullish (JObj [])" by simp
  have absent: "json_path (JObj []) text_path = None" by (simp add: text_path_def)
  have hist: "chatHistory chatting_state = [question_turn, answer_turn]"
    by (simp add: chatting_state_def)
  from assistant_settle_appends_one_model_entry
         [of example_runtime "Response 200 ''OK'' (BodyJson cited_response)" chatting_state]
       present tr cites hist
  have one: "chatHistory (handleGeminiQuery_settle example_runtime
        (Response 200 ''OK'' (BodyJson cited_response)) chatting_state)
       = [question_turn, answer_turn,
          \<lparr>entry_role = model, entry_text = JStr ''Cycling helps as well.'',
           entry_sources = Some [(JStr ''https://example.org/cycling'',
                                  JStr ''Cycling and the heart'')]\<rparr>]"
    by auto
  from assistant_settle_appends_one_model_entry
         [of example_runtime "FetchRejected (JsError ''Failed to fetch'')" chatting_state] hist
  have two: "chatHistory (handleGeminiQuery_settle example_runtime
        (FetchRejected (JsError ''Failed to fetch'')) chatting_state)
       = [question_turn, answer_turn,
          \<lparr>entry_role = model,
           entry_text = JStr ''Failed to connect to AI: Failed to fetch.'',
           entry_sources = None\<rparr>]"
    by auto
  from assistant_settle_appends_one_model_entry
         [of example_runtime "Response 200 ''OK'' (BodyJson (JObj []))" chatting_state]
       nn absent hist
  have three: "chatHistory (handleGeminiQuery_settle example_runtime
        (Response 200 ''OK'' (BodyJson (JObj []))) chatting_state)
       = [question_turn, answer_turn,
          \<lparr>entry_role = model,
           entry_text = JStr ''Model response error: Could not generate content.'',
           entry_sources = None\<rparr>]"
    by auto
  from present tr cites one two nn absent three show ?thesis by blast
qed

subsection \<open>The step-assessment workflow\<close>

lemma fetch_failed_value:
  "fetch_failed st outcome \<Longrightarrow> sr_value (fetchSteps rt now outcome st) = JNum 0"
  by (auto simp: fetch_failed_def fetchSteps_def fetchSteps_catch_def truthy_str_def Let_def
        split: option.splits fetch_outcome.splits body_result.splits)

lemma assess_prompt_nonempty: "assess_prompt rt steps \<noteq> []"
  by (simp add: assess_prompt_def)

lemma send_custom_payload:
  "p \<noteq> [] \<Longrightarrow> snd (handleGeminiQuery_send (Some p) True st) =
     Some \<lparr>contents = [\<lparr>entry_role = user, entry_text = JStr p, entry_sources = None\<rparr>],
           tools_google_search = False, systemInstruction = coach_instruction\<rparr>"
  by (simp add: handleGeminiQuery_send_def truthy_str_def Let_def)

lemma handleGeminiQuery_payload:
  "snd (handleGeminiQuery rt outcome customPrompt isFitQuery st)
     = snd (handleGeminiQuery_send customPrompt isFitQuery st)"
  by (simp add: handleGeminiQuery_def split: prod.splits option.splits)

lemma assess_payload:
  assumes "sr_value (fetchSteps rt now fit_outcome st) = JNum n" and "0 \<le> n"
  shows "ar_payload (handleAssessSteps rt now fit_outcome gemini_outcome st)
           = Some (coaching_payload rt (JNum n))"
proof -
  have "steps_guard rt (JNum n)"
    using assms(2) by (auto simp: steps_guard_def)
  with assms(1) show ?thesis
    by (simp add: handleAssessSteps_def Let_def handleGeminiQuery_payload send_custom_payload
          assess_prompt_nonempty coaching_payload_def assess_prompt_def coach_instruction_def)
qed

text \<open>
  C10, as stated: the workflow always goes on to query the model, the guard being true
  for every outcome of the step fetch. Not so: the guard is a real test. A response
  with a success status whose \<open>intVal\<close> is \<open>-5\<close> makes \<open>fetchSteps\<close> return \<open>-5\<close>, the
  guard \<open>steps > 0 || steps === 0\<close> is false, and no prompt is sent.
\<close>

theorem assess_steps_guard_can_fail:
  "sr_value (fetchSteps example_runtime 1730548800123
      (Response 200 ''OK'' (BodyJson (steps_response (- 5)))) connected_state) = JNum (- 5)
   \<and> \<not> steps_guard example_runtime (JNum (- 5))
   \<and> ar_payload (handleAssessSteps example_runtime 1730548800123
        (Response 200 ''OK'' (BodyJson (steps_response (- 5))))
        (FetchRejected (JsError [])) connected_state) = None"
  by (simp add: handleAssessSteps_def Let_def fetchSteps_def connected_state_def response_ok_def
        extract_steps_def js_get_def steps_response_def opt_get_def js_or_def steps_guard_def)

text \<open>
  C10, amended. Whenever the step fetch returns a number \<open>n \<ge> 0\<close>, the guard is true and
  the coaching prompt stating exactly that many steps is sent, alone, with the coaching
  instruction. Every failure path of the fetch (missing token, HTTP 401, any other
  non-success status, network error, a body that is not JSON) returns 0, so a failed
  fetch sends the very request that a confirmed zero-step day sends. Whenever the fetch
  returns a negative number, the guard is false and no prompt is sent.
\<close>

theorem assess_steps_queries_model:
  "(\<forall>n. sr_value (fetchSteps rt now fit_outcome st) = JNum n \<and> 0 \<le> n \<longrightarrow>
      steps_guard rt (sr_value (fetchSteps rt now fit_outcome st))
      \<and> ar_payload (handleAssessSteps rt now fit_outcome gemini_outcome st)
          = Some (coaching_payload rt (JNum n)))
   \<and> (fetch_failed st fit_outcome \<longrightarrow>
        sr_value (fetchSteps rt now fit_outcome st) = JNum 0
        \<and> ar_payload (handleAssessSteps rt now fit_outcome gemini_outcome st)
            = Some (coaching_payload rt (JNum 0)))
   \<and> (\<forall>n. sr_value (fetchSteps rt now fit_outcome st) = JNum n \<and> n < 0 \<longrightarrow>
        \<not> steps_guard rt (sr_value (fetchSteps rt now fit_outcome st))
        \<and> ar_payload (handleAssessSteps rt now fit_outcome gemini_outcome st) = None)"
proof (intro conjI allI impI)
  fix n
  assume a: "sr_value (fetchSteps rt now fit_outcome st) = JNum n \<and> 0 \<le> n"
  then show "steps_guard rt (sr_value (fetchSteps rt now fit_outcome st))"
    by (auto simp: steps_guard_def)
  from a show "ar_payload (handleAssessSteps rt now fit_outcome gemini_outcome st)
                 = Some (coaching_payload rt (JNum n))"
    by (simp add: assess_payload)
next
  assume failed: "fetch_failed st fit_outcome"
  then show zero: "sr_value (fetchSteps rt now fit_outcome st) = JNum 0"
    by (rule fetch_failed_value)
  then show "ar_payload (handleAssessSteps rt now fit_outcome gemini_outcome st)
               = Some (coaching_payload rt (JNum 0))"
    by (simp add: assess_payload)
next
  fix n
  assume a: "sr_value (fetchSteps rt now fit_outcome st) = JNum n \<and> n < 0"
  then show no_guard: "\<not> steps_guard rt (sr_value (fetchSteps rt now fit_outcome st))"
    by (simp add: steps_guard_def)
  then show "ar_payload (handleAssessSteps rt now fit_outcome gemini_outcome st) = None"
    by (simp add: handleAssessSteps_def Let_def)
qed

theorem assess_steps_queries_model_witness:
  "fetch_failed connected_state (Response 401 ''Unauthorized'' (BodyJson JNull))
   \<and> ar_payload (handleAssessSteps example_runtime 1730548800123
        (Response 401 ''Unauthorized'' (BodyJson JNull))
        (FetchRejected (JsError [])) connected_state)
       = Some (coaching_payload example_runtime (JNum 0))
   \<and> sr_value (fetchSteps example_runtime 1730548800123
        (Response 200 ''OK'' (BodyJson (steps_response 0))) connected_state) = JNum 0
   \<and> ar_payload (handleAssessSteps example_runtime 1730548800123
        (Response 200 ''OK'' (BodyJson (steps_response 0)))
        (FetchRejected (JsError [])) connected_state)
       = Some (coaching_payload example_runtime (JNum 0))
   \<and> sr_value (fetchSteps example_runtime 1730548800123
        (Response 200 ''OK'' (BodyJson (steps_response 4321))) connected_state) = JNum 4321
   \<and> ar_payload (handleAssessSteps example_runtime 1730548800123
        (Response 200 ''OK'' (BodyJson (steps_response 4321)))
        (FetchRejected (JsError [])) connected_state)
       = Some (coaching_payload example_runtime (JNum 4321))
   \<and> sr_value (fetchSteps example_runtime 1730548800123
        (Response 200 ''OK'' (BodyJson (steps_response (- 12)))) connected_state) = JNum (- 12)
   \<and> ar_payload (handleAssessSteps example_runtime 1730548800123
        (Response 200 ''OK'' (BodyJson (steps_response (- 12))))
        (FetchRejected (JsError [])) connected_state) = None"
proof -
  have failed: "fetch_failed connected_state (Response 401 ''Unauthorized'' (BodyJson JNull))"
    by (simp add: fetch_failed_def response_ok_def)
  have zero: "sr_value (fetchSteps example_runtime 1730548800123
        (Response 200 ''OK'' (BodyJson (steps_response 0))) connected_state) = JNum 0"
    by (simp add: fetchSteps_def connected_state_def response_ok_def Let_def
          extract_steps_def js_get_def steps_response_def opt_get_def js_or_def)
  have some: "sr_value (fetchSteps example_runtime 1730548800123
        (Response 200 ''OK'' (BodyJson (steps_response 4321))) connected_state) = JNum 4321"
    by (simp add: fetchSteps_def connected_state_def response_ok_def Let_def
          extract_steps_def js_get_def steps_response_def opt_get_def js_or_def)
  have neg: "sr_value (fetchSteps example_runtime 1730548800123
        (Response 200 ''OK'' (BodyJson (steps_response (- 12)))) connected_state) = JNum (- 12)"
    by (simp add: fetchSteps_def connected_state_def response_ok_def Let_def
          extract_steps_def js_get_def steps_response_def opt_get_def js_or_def)
  from assess_steps_queries_model [of example_runtime 1730548800123
         "Response 401 ''Unauthorized'' (BodyJson JNull)" connected_state
         "FetchRejected (JsError [])"] failed
  have one: "ar_payload (handleAssessSteps example_runtime 1730548800123
        (Response 401 ''Unauthorized'' (BodyJson JNull))
        (FetchRejected (JsError [])) connected_state)
       = Some (coaching_payload example_runtime (JNum 0))"
    by blast
  from assess_steps_queries_model [of example_runtime 1730548800123
         "Response 200 ''OK'' (BodyJson (steps_response 0))" connected_state
         "FetchRejected (JsError [])"] zero
  have two: "ar_payload (handleAssessSteps example_runtime 1730548800123
        (Response 200 ''OK'' (BodyJson (steps_response 0)))
        (FetchRejected (JsError [])) connected_state)
       = Some (coaching_payload example_runtime (JNum 0))"
    by simp
  from assess_steps_queries_model [of example_runtime 1730548800123
         "Response 200 ''OK'' (BodyJson (steps_response 4321))" connected_state
         "FetchRejected (JsError [])"] some
  have three: "ar_payload (handleAssessSteps example_runtime 1730548800123
        (Response 200 ''OK'' (BodyJson (steps_response 4321)))
        (FetchRejected (JsError [])) connected_state)
       = Some (coaching_payload example_runtime (JNum 4321))"
    by simp
  from assess_steps_queries_model [of example_runtime 1730548800123
         "Response 200 ''OK'' (BodyJson (steps_response (- 12)))" connected_state
         "FetchRejected (JsError [])"] neg
  have four: "ar_payload (handleAssessSteps example_runtime 1730548800123
        (Response 200 ''OK'' (BodyJson (steps_response (- 12))))
        (FetchRejected (JsError [])) connected_state) = None"
    by simp
  from failed one zero two some three neg four show ?thesis by blast
qed

subsection \<open>The medication list\<close>

lemma handleSubmit_valid:
  assumes "form_valid appId form st"
  shows "sub_requests (handleSubmit appId outcome form st) =
           [addDoc (the (userMedicationsCollectionRef appId st))
              \<lparr>name = form_name form, dose = form_dose form, time = form_time form,
               new_isTaken = False, new_createdAt = serverTimestamp\<rparr>]"
  using assms
  by (auto simp: handleSubmit_def form_valid_def Let_def split: option.splits write_outcome.splits)

lemma handleSubmit_invalid:
  assumes "\<not> form_valid appId form st"
  shows "handleSubmit appId outcome form st =
           \<lparr>sub_form = form,
            sub_state = st\<lparr>message := Some \<lparr>ntype = error,
                                             ntext = ''All fields are required.''\<rparr>\<rparr>,
            sub_requests = []\<rparr>"
  using assms
  by (auto simp: handleSubmit_def form_valid_def Let_def split: option.splits)

lemma handleSubmit_accepted_state:
  "form_valid appId form st \<Longrightarrow> sub_state (handleSubmit appId WriteAccepted form st) = st"
  by (auto simp: handleSubmit_def form_valid_def Let_def split: option.splits)

lemma handleSubmit_rejected_state:
  "form_valid appId form st \<Longrightarrow>
     sub_state (handleSubmit appId (WriteRejected e) form st)
       = st\<lparr>message := Some \<lparr>ntype = error,
               ntext = ''Failed to add medication. See console for details.''\<rparr>\<rparr>"
  by (auto simp: handleSubmit_def form_valid_def Let_def split: option.splits)

lemma mset_snapshot: "mset (snapshot docs) = mset docs"
  by (simp add: snapshot_def)

lemma set_snapshot: "set (snapshot docs) = set docs"
  by (simp add: snapshot_def)

lemma submit_accepted:
  assumes "form_valid appId form (app w)"
  shows "submit_medication appId new_id server_time WriteAccepted form w =
           \<lparr>app = (app w)\<lparr>medications :=
                     snapshot (store w @ [created_medication new_id server_time form])\<rparr>,
            store = store w @ [created_medication new_id server_time form]\<rparr>"
  using assms
  by (simp add: submit_medication_def Let_def handleSubmit_valid handleSubmit_accepted_state
        store_round_def onSnapshot_def created_medication_def)

lemma submit_rejected:
  assumes "form_valid appId form (app w)"
  shows "submit_medication appId new_id server_time (WriteRejected e) form w =
           \<lparr>app = (app w)\<lparr>message := Some \<lparr>ntype = error,
                     ntext = ''Failed to add medication. See console for details.''\<rparr>\<rparr>,
            store = store w\<rparr>"
  using assms
  by (simp add: submit_medication_def Let_def handleSubmit_rejected_state store_round_def)

lemma submit_invalid:
  assumes "\<not> form_valid appId form (app w)"
  shows "submit_medication appId new_id server_time outcome form w =
           \<lparr>app = (app w)\<lparr>message := Some \<lparr>ntype = error,
                     ntext = ''All fields are required.''\<rparr>\<rparr>,
            store = store w\<rparr>"
  using assms
  by (simp add: submit_medication_def handleSubmit_invalid store_round_def Let_def
        split: write_outcome.splits)

lemma aspirin_form_valid: "form_valid ''health-app'' aspirin_form signed_in_state"
  by (simp add: form_valid_def aspirin_form_def signed_in_state_def initial_state_def
        userMedicationsCollectionRef_def)

text \<open>
  C8, as stated: every submission with a non-empty name, dose and time makes exactly
  one new record appear in the synced list. Not when the store rejects the request: the
  one create request is sent, the handler's \<open>catch\<close> raises the failure notice, and the
  list stays as it was, here empty.
\<close>

theorem submit_rejected_adds_no_record:
  "form_valid ''health-app'' aspirin_form signed_in_state
   \<and> sub_requests (handleSubmit ''health-app'' (WriteRejected (JsError ''permission-denied''))
        aspirin_form signed_in_state)
      = [addDoc [''artifacts'', ''health-app'', ''users'', ''uid-1'', ''medications'']
           \<lparr>name = ''Aspirin'', dose = ''500mg'', time = ''08:00'',
            new_isTaken = False, new_createdAt = serverTimestamp\<rparr>]
   \<and> medications (app (submit_medication ''health-app'' ''doc-1'' 1730548800123
        (WriteRejected (JsError ''permission-denied'')) aspirin_form
        \<lparr>app = signed_in_state, store = []\<rparr>)) = []
   \<and> message (app (submit_medication ''health-app'' ''doc-1'' 1730548800123
        (WriteRejected (JsError ''permission-denied'')) aspirin_form
        \<lparr>app = signed_in_state, store = []\<rparr>))
      = Some \<lparr>ntype = error, ntext = ''Failed to add medication. See console for details.''\<rparr>"
  by (simp add: form_valid_def aspirin_form_def signed_in_state_def initial_state_def
        userMedicationsCollectionRef_def handleSubmit_def submit_medication_def
        store_round_def Let_def)

text \<open>
  C8, amended. For every submission in which name, dose and time are all non-empty and
  the user's collection reference exists, exactly one create request is issued, carrying
  exactly \<open>{name, dose, time, isTaken: false, createdAt: server timestamp}\<close>. When the
  store accepts it, exactly one new record, with \<open>isTaken = false\<close> and the submitted
  name, dose and time, appears in the synced list; when the store rejects it, the
  failure notice is raised and the store and the list are unchanged. If a required field
  is empty (or the reference is missing), the validation notice is raised, no request is
  issued, and the store and the list are unchanged.
\<close>

theorem submit_creates_one_untaken_record:
  "(form_valid appId form (app w) \<longrightarrow>
      sub_requests (handleSubmit appId outcome form (app w)) =
        [addDoc (the (userMedicationsCollectionRef appId (app w)))
           \<lparr>name = form_name form, dose = form_dose form, time = form_time form,
            new_isTaken = False, new_createdAt = serverTimestamp\<rparr>]
      \<and> (outcome = WriteAccepted \<and> medications (app w) = snapshot (store w) \<longrightarrow>
           mset (medications (app (submit_medication appId new_id server_time outcome form w)))
             = add_mset (created_medication new_id server_time form)
                 (mset (medications (app w)))
           \<and> isTaken (created_medication new_id server_time form) = False)
      \<and> (\<forall>e. outcome = WriteRejected e \<longrightarrow>
           submit_medication appId new_id server_time outcome form w
             = \<lparr>app = (app w)\<lparr>message := Some \<lparr>ntype = error,
                        ntext = ''Failed to add medication. See console for details.''\<rparr>\<rparr>,
                store = store w\<rparr>))
   \<and> (\<not> form_valid appId form (app w) \<longrightarrow>
        sub_requests (handleSubmit appId outcome form (app w)) = []
        \<and> submit_medication appId new_id server_time outcome form w
            = \<lparr>app = (app w)\<lparr>message := Some \<lparr>ntype = error,
                       ntext = ''All fields are required.''\<rparr>\<rparr>,
               store = store w\<rparr>)"
proof (intro conjI impI allI)
  assume valid: "form_valid appId form (app w)"
  then show "sub_requests (handleSubmit appId outcome form (app w)) =
        [addDoc (the (userMedicationsCollectionRef appId (app w)))
           \<lparr>name = form_name form, dose = form_dose form, time = form_time form,
            new_isTaken = False, new_createdAt = serverTimestamp\<rparr>]"
    by (rule handleSubmit_valid)
  {
    assume "outcome = WriteAccepted \<and> medications (app w) = snapshot (store w)"
    with valid show
      "mset (medications (app (submit_medication appId new_id server_time outcome form w)))
         = add_mset (created_medication new_id server_time form) (mset (medications (app w)))"
      by (simp add: submit_accepted mset_snapshot)
    show "isTaken (created_medication new_id server_time form) = False"
      by (simp add: created_medication_def)
  }
  {
    fix e
    assume "outcome = WriteRejected e"
    with valid show "submit_medication appId new_id server_time outcome form w
             = \<lparr>app = (app w)\<lparr>message := Some \<lparr>ntype = error,
                        ntext = ''Failed to add medication. See console for details.''\<rparr>\<rparr>,
                store = store w\<rparr>"
      by (simp add: submit_rejected)
  }
next
  assume invalid: "\<not> form_valid appId form (app w)"
  then show "sub_requests (handleSubmit appId outcome form (app w)) = []"
    by (simp add: handleSubmit_invalid)
  from invalid show "submit_medication appId new_id server_time outcome form w
            = \<lparr>app = (app w)\<lparr>message := Some \<lparr>ntype = error,
                       ntext = ''All fields are required.''\<rparr>\<rparr>,
               store = store w\<rparr>"
    by (rule submit_invalid)
qed

theorem submit_creates_one_untaken_record_witness:
  "form_valid ''health-app'' aspirin_form (app \<lparr>app = signed_in_state, store = []\<rparr>)
   \<and> medications (app \<lparr>app = signed_in_state, store = []\<rparr>) = snapshot []
   \<and> sub_requests (handleSubmit ''health-app'' WriteAccepted aspirin_form signed_in_state)
      = [addDoc [''artifacts'', ''health-app'', ''users'', ''uid-1'', ''medications'']
           \<lparr>name = ''Aspirin'', dose = ''500mg'', time = ''08:00'',
            new_isTaken = False, new_createdAt = serverTimestamp\<rparr>]
   \<and> mset (medications (app (submit_medication ''health-app'' ''doc-1'' 1730548800123
        WriteAccepted aspirin_form \<lparr>app = signed_in_state, store = []\<rparr>)))
      = {#aspirin#}
   \<and> \<not> form_valid ''health-app'' (aspirin_form\<lparr>form_dose := []\<rparr>)
          (app \<lparr>app = signed_in_state, store = []\<rparr>)
   \<and> sub_requests (handleSubmit ''health-app'' WriteAccepted (aspirin_form\<lparr>form_dose := []\<rparr>)
        signed_in_state) = []"
proof -
  let ?w = "\<lparr>app = signed_in_state, store = []\<rparr>"
  have valid: "form_valid ''health-app'' aspirin_form (app ?w)"
    by (simp add: aspirin_form_valid)
  have sync: "medications (app ?w) = snapshot (store ?w)"
    by (simp add: signed_in_state_def initial_state_def snapshot_def)
  have invalid: "\<not> form_valid ''health-app'' (aspirin_form\<lparr>form_dose := []\<rparr>) (app ?w)"
    by (simp add: form_valid_def)
  have ref: "the (userMedicationsCollectionRef ''health-app'' signed_in_state)
               = [''artifacts'', ''health-app'', ''users'', ''uid-1'', ''medications'']"
    by (simp add: userMedicationsCollectionRef_def signed_in_state_def)
  have made: "created_medication ''doc-1'' 1730548800123 aspirin_form = aspirin"
    by (simp add: created_medication_def aspirin_form_def aspirin_def)
  note main = submit_creates_one_untaken_record
         [of "''health-app''" aspirin_form ?w WriteAccepted "''doc-1''" 1730548800123]
  from main valid ref have one:
    "sub_requests (handleSubmit ''health-app'' WriteAccepted aspirin_form signed_in_state)
      = [addDoc [''artifacts'', ''health-app'', ''users'', ''uid-1'', ''medications'']
           \<lparr>name = ''Aspirin'', dose = ''500mg'', time = ''08:00'',
            new_isTaken = False, new_createdAt = serverTimestamp\<rparr>]"
    by (simp add: aspirin_form_def)
  from main valid sync made have two:
    "mset (medications (app (submit_medication ''health-app'' ''doc-1'' 1730548800123
        WriteAccepted aspirin_form ?w))) = {#aspirin#}"
    by (simp add: signed_in_state_def initial_state_def)
  from submit_creates_one_untaken_record
         [of "''health-app''" "aspirin_form\<lparr>form_dose := []\<rparr>" ?w WriteAccepted
             "''doc-1''" 1730548800123] invalid
  have three:
    "sub_requests (handleSubmit ''health-app'' WriteAccepted (aspirin_form\<lparr>form_dose := []\<rparr>)
        signed_in_state) = []"
    by simp
  from valid sync one two invalid three show ?thesis by simp
qed

lemma click_toggle_accepted:
  assumes "userMedicationsCollectionRef appId (app w) \<noteq> None"
  shows "click_toggle appId WriteAccepted m w =
           \<lparr>app = (app w)\<lparr>medications := snapshot (toggled m (store w))\<rparr>,
            store = toggled m (store w)\<rparr>"
  using assms
  by (auto simp: click_toggle_def handleToggleTaken_def store_round_def onSnapshot_def
        toggled_def Let_def split: option.splits)

lemma collection_ref_medications:
  "userMedicationsCollectionRef appId (st\<lparr>medications := ms\<rparr>)
     = userMedicationsCollectionRef appId st"
  by (simp add: userMedicationsCollectionRef_def)

lemma handleToggleTaken_request:
  assumes "userMedicationsCollectionRef appId st = Some ref"
  shows "snd (handleToggleTaken appId outcome ident taken st)
           = [updateDoc_isTaken ref ident (\<not> taken)]"
  using assms by (simp add: handleToggleTaken_def split: write_outcome.splits)

lemma toggled_member:
  assumes "distinct (map med_id docs)" and "m \<in> set docs"
      and "m1 \<in> set (toggled m docs)" and "med_id m1 = med_id m"
  shows "m1 = m\<lparr>isTaken := \<not> isTaken m\<rparr>"
proof -
  from assms(3) obtain x where x: "x \<in> set docs"
      "m1 = (if med_id x = med_id m then x\<lparr>isTaken := \<not> isTaken m\<rparr> else x)"
    by (auto simp: toggled_def)
  with assms(4) have "med_id x = med_id m" by (auto split: if_splits)
  with assms(1,2) x(1) have "x = m" by (meson distinct_map inj_onD)
  with x(2) show ?thesis by simp
qed

lemma toggled_twice:
  assumes "distinct (map med_id docs)" and "m \<in> set docs"
  shows "toggled (m\<lparr>isTaken := \<not> isTaken m\<rparr>) (toggled m docs) = docs"
proof -
  let ?f = "\<lambda>x. if med_id x = med_id m then x\<lparr>isTaken := \<not> isTaken m\<rparr> else x"
  let ?g = "\<lambda>x. if med_id x = med_id m then x\<lparr>isTaken := isTaken m\<rparr> else x"
  have "?g (?f x) = x" if "x \<in> set docs" for x
  proof (cases "med_id x = med_id m")
    case True
    with assms that have "x = m" by (meson distinct_map inj_onD)
    then show ?thesis by simp
  next
    case False
    then show ?thesis by simp
  qed
  then have "map (?g \<circ> ?f) docs = docs" by (intro map_idI) simp
  then show ?thesis by (simp add: toggled_def cong: if_cong)
qed

text \<open>
  C9. For every listed medication record, whatever its taken flag, the toggle writes
  \<open>isTaken := not isTaken\<close> for that record and changes no other field and no other
  record; toggling twice in sequence, the second toggle reading the flag the first one
  produced, brings the collection, and with it the flag, back to where it was.
\<close>

theorem toggle_taken_involution:
  assumes "userMedicationsCollectionRef appId (app w) = Some ref"
      and "medications (app w) = snapshot (store w)"
      and "distinct (map med_id (store w))"
      and "m \<in> set (medications (app w))"
  shows "snd (handleToggleTaken appId outcome (med_id m) (isTaken m) (app w))
           = [updateDoc_isTaken ref (med_id m) (\<not> isTaken m)]
       \<and> store (click_toggle appId WriteAccepted m w) = toggled m (store w)
       \<and> (\<forall>m1 \<in> set (medications (app (click_toggle appId WriteAccepted m w))).
             med_id m1 = med_id m \<longrightarrow>
               m1 = m\<lparr>isTaken := \<not> isTaken m\<rparr>
               \<and> store (click_toggle appId WriteAccepted m1
                          (click_toggle appId WriteAccepted m w)) = store w
               \<and> medications (app (click_toggle appId WriteAccepted m1
                          (click_toggle appId WriteAccepted m w))) = medications (app w))"
proof (intro conjI ballI impI)
  from assms(1) have ref: "userMedicationsCollectionRef appId (app w) \<noteq> None" by simp
  from assms(2,4) have mem: "m \<in> set (store w)" by (simp add: set_snapshot)
  show "snd (handleToggleTaken appId outcome (med_id m) (isTaken m) (app w))
          = [updateDoc_isTaken ref (med_id m) (\<not> isTaken m)]"
    using assms(1) by (rule handleToggleTaken_request)
  show once: "store (click_toggle appId WriteAccepted m w) = toggled m (store w)"
    using ref by (simp add: click_toggle_accepted)
  fix m1
  assume listed: "m1 \<in> set (medications (app (click_toggle appId WriteAccepted m w)))"
     and same: "med_id m1 = med_id m"
  from listed have "m1 \<in> set (toggled m (store w))"
    using ref by (simp add: click_toggle_accepted set_snapshot)
  from assms(3) mem this same show m1: "m1 = m\<lparr>isTaken := \<not> isTaken m\<rparr>"
    by (rule toggled_member)
  have "store (click_toggle appId WriteAccepted m1 (click_toggle appId WriteAccepted m w))
          = toggled m1 (toggled m (store w))"
    using ref by (simp add: click_toggle_accepted collection_ref_medications)
  also have "\<dots> = store w"
    unfolding m1 using assms(3) mem by (rule toggled_twice)
  finally show restored: "store (click_toggle appId WriteAccepted m1
                        (click_toggle appId WriteAccepted m w)) = store w" .
  have "medications (app (click_toggle appId WriteAccepted m1
                        (click_toggle appId WriteAccepted m w)))
          = snapshot (store (click_toggle appId WriteAccepted m1
                        (click_toggle appId WriteAccepted m w)))"
    using ref by (simp add: click_toggle_accepted collection_ref_medications)
  with restored assms(2)
  show "medications (app (click_toggle appId WriteAccepted m1
                        (click_toggle appId WriteAccepted m w))) = medications (app w)"
    by simp
qed

theorem toggle_taken_involution_witness:
  "userMedicationsCollectionRef ''health-app'' (app example_world)
     = Some [''artifacts'', ''health-app'', ''users'', ''uid-1'', ''medications'']
   \<and> medications (app example_world) = snapshot (store example_world)
   \<and> distinct (map med_id (store example_world))
   \<and> aspirin \<in> set (medications (app example_world))
   \<and> store (click_toggle ''health-app'' WriteAccepted aspirin example_world)
       = [aspirin\<lparr>isTaken := True\<rparr>, statin]
   \<and> aspirin\<lparr>isTaken := True\<rparr>
       \<in> set (medications (app (click_toggle ''health-app'' WriteAccepted aspirin example_world)))
   \<and> store (click_toggle ''health-app'' WriteAccepted (aspirin\<lparr>isTaken := True\<rparr>)
              (click_toggle ''health-app'' WriteAccepted aspirin example_world))
       = [aspirin, statin]"
proof -
  have ref: "userMedicationsCollectionRef ''health-app'' (app example_world)
     = Some [''artifacts'', ''health-app'', ''users'', ''uid-1'', ''medications'']"
    by (simp add: example_world_def signed_in_state_def userMedicationsCollectionRef_def)
  have sync: "medications (app example_world) = snapshot (store example_world)"
    by (simp add: example_world_def snapshot_def aspirin_def statin_def)
  have ids: "distinct (map med_id (store example_world))"
    by (simp add: example_world_def aspirin_def statin_def)
  have listed: "aspirin \<in> set (medications (app example_world))"
    by (simp add: example_world_def)
  note main = toggle_taken_involution [OF ref sync ids listed, of WriteAccepted]
  from main have one: "store (click_toggle ''health-app'' WriteAccepted aspirin example_world)
       = [aspirin\<lparr>isTaken := True\<rparr>, statin]"
    by (simp add: toggled_def example_world_def aspirin_def statin_def)
  have shown: "aspirin\<lparr>isTaken := True\<rparr>
       \<in> set (medications (app (click_toggle ''health-app'' WriteAccepted aspirin example_world)))"
    using ref one
    by (simp add: click_toggle_accepted set_snapshot toggled_def example_world_def
          aspirin_def statin_def)
  have same: "med_id (aspirin\<lparr>isTaken := True\<rparr>) = med_id aspirin" by simp
  from main shown same
  have two: "store (click_toggle ''health-app'' WriteAccepted (aspirin\<lparr>isTaken := True\<rparr>)
              (click_toggle ''health-app'' WriteAccepted aspirin example_world))
       = store example_world"
    by blast
  then have "store (click_toggle ''health-app'' WriteAccepted (aspirin\<lparr>isTaken := True\<rparr>)
              (click_toggle ''health-app'' WriteAccepted aspirin example_world))
       = [aspirin, statin]"
    by (simp add: example_world_def)
  with ref sync ids listed one shown show ?thesis by blast
qed

end
